theory Spec2Isabelle
  imports Main "HOL-Library.Word" "HOL-Library.AList"
begin

unbundle bit_operations_syntax

section \<open>Machine types\<close>

type_synonym u8 = "8 word"
type_synonym u16 = "16 word"
type_synonym u32 = "32 word"
type_synonym s32 = "32 word"
type_synonym u64 = "64 word"

section \<open>Build configuration\<close>

text \<open>
  Both programs include a common header that is not part of the sources at hand. It
  supplies the constants \<open>MAX_DATA_SIZE_OPENSSL\<close>, \<open>TASK_COMM_LEN\<close>, \<open>SA_DATA_LEN\<close>
  and \<open>AF_INET\<close>, and the read-only global \<open>target_pid\<close>. They are parameters of the
  model, together with the preprocessor symbol \<open>KERNEL_LESS_5_2\<close> that
  \<^verbatim>\<open>nspr_kern.c\<close> tests. \<open>MAX_DATA_SIZE_OPENSSL\<close> is used as a C \<open>int\<close>, so it is a
  32-bit word read as two's complement.
\<close>

record build_config =
  MAX_DATA_SIZE_OPENSSL :: s32
  TASK_COMM_LEN :: nat
  SA_DATA_LEN :: nat
  AF_INET :: int
  target_pid :: u64
  KERNEL_LESS_5_2 :: bool

section \<open>The invocation context\<close>

text \<open>
  What one run of a probe can observe: the registers of the traced call
  (\<open>PT_REGS_PARM1\<close>, \<open>PT_REGS_PARM2\<close>, \<open>PT_REGS_RC\<close>), the results of
  \<open>bpf_get_current_pid_tgid\<close>, \<open>bpf_ktime_get_ns\<close> and \<open>bpf_get_current_comm\<close>, the
  CPU the probe runs on, and the memory of the traced process (a partial map from
  addresses to bytes; an unmapped address is \<open>None\<close>).
\<close>

type_synonym memory = "u64 \<Rightarrow> u8 option"

record pt_regs =
  PT_REGS_PARM1 :: u64
  PT_REGS_PARM2 :: u64
  PT_REGS_RC :: u64
  current_pid_tgid :: u64
  ktime_ns :: u64
  current_comm :: "u8 list"
  cpu :: nat
  mem :: memory

section \<open>Kernel helpers\<close>

text \<open>
  \<open>mem_read m src n\<close> is the copy of \<open>n\<close> bytes at \<open>src\<close>; it fails when one of them
  is unmapped.
\<close>

definition mem_read :: "memory \<Rightarrow> u64 \<Rightarrow> nat \<Rightarrow> u8 list option" where
  "mem_read m src n =
     (if list_all (\<lambda>i. m (src + of_nat i) \<noteq> None) [0..<n]
      then Some (map (\<lambda>i. the (m (src + of_nat i))) [0..<n])
      else None)"

text \<open>
  \<open>bpf_probe_read(dst, size, src)\<close> and \<open>bpf_probe_read_user\<close>: the first \<open>size\<close> bytes
  of the destination become the bytes read, or zeros when the read faults (the helper
  clears the destination then); the rest of the destination is untouched. Both programs
  ignore the helper's return value, so the model returns the destination only.
\<close>

definition bpf_probe_read :: "memory \<Rightarrow> u8 list \<Rightarrow> nat \<Rightarrow> u64 \<Rightarrow> u8 list" where
  "bpf_probe_read m dst sz src =
     (case mem_read m src sz of
        Some bs \<Rightarrow> bs
      | None \<Rightarrow> replicate sz 0) @ drop sz dst"

definition bpf_probe_read_user :: "memory \<Rightarrow> u8 list \<Rightarrow> nat \<Rightarrow> u64 \<Rightarrow> u8 list" where
  "bpf_probe_read_user m dst sz src = bpf_probe_read m dst sz src"

text \<open>\<open>bpf_get_current_comm(buf, size)\<close>: the task's name, cut or zero-padded to \<open>size\<close>.\<close>

definition bpf_get_current_comm :: "pt_regs \<Rightarrow> nat \<Rightarrow> u8 list" where
  "bpf_get_current_comm ctx sz = take sz (current_comm ctx @ replicate sz 0)"

text \<open>
  A \<open>BPF_MAP_TYPE_HASH\<close> map is an association list with distinct keys, together with
  its declared \<open>max_entries\<close>. \<open>bpf_map_update_elem\<close> with \<open>BPF_ANY\<close> overwrites an existing
  key, inserts a new key while there is room, and otherwise leaves the map as it is
  (the helper returns an error, which the programs ignore).
\<close>

type_synonym ('k, 'v) bpf_hash = "('k \<times> 'v) list"

definition bpf_map_lookup_elem :: "('k, 'v) bpf_hash \<Rightarrow> 'k \<Rightarrow> 'v option" where
  "bpf_map_lookup_elem m k = map_of m k"

definition bpf_map_update_elem :: "nat \<Rightarrow> ('k, 'v) bpf_hash \<Rightarrow> 'k \<Rightarrow> 'v \<Rightarrow> ('k, 'v) bpf_hash" where
  "bpf_map_update_elem max_entries m k v =
     (if map_of m k \<noteq> None then AList.update k v m
      else if length m < max_entries then AList.update k v m
      else m)"

definition bpf_map_delete_elem :: "('k, 'v) bpf_hash \<Rightarrow> 'k \<Rightarrow> ('k, 'v) bpf_hash" where
  "bpf_map_delete_elem m k = AList.delete k m"

text \<open>Both programs declare their two hash maps with \<open>max_entries = 1024\<close>.\<close>

definition args_map_max_entries :: nat where
  "args_map_max_entries = 1024"

text \<open>
  A \<open>BPF_MAP_TYPE_PERCPU_ARRAY\<close> holds one copy of each element per CPU; a lookup
  returns the copy of the executing CPU, or \<open>NULL\<close> when the key is not below
  \<open>max_entries\<close>.
\<close>

definition bpf_percpu_array_lookup :: "nat \<Rightarrow> (nat \<Rightarrow> 'v) \<Rightarrow> nat \<Rightarrow> u32 \<Rightarrow> 'v option" where
  "bpf_percpu_array_lookup max_entries heap c k =
     (if unat k < max_entries then Some (heap c) else None)"

text \<open>The process filter that opens every probe: \<open>target_pid != 0 && target_pid != pid\<close>.\<close>

definition pid_of :: "u64 \<Rightarrow> u32" where
  "pid_of pid_tgid = ucast (drop_bit 32 pid_tgid)"

definition filtered_out :: "build_config \<Rightarrow> u32 \<Rightarrow> bool" where
  "filtered_out cfg pid \<longleftrightarrow> target_pid cfg \<noteq> 0 \<and> target_pid cfg \<noteq> ucast pid"

section \<open>Little-endian fields of foreign structures\<close>

fun le_word :: "u8 list \<Rightarrow> 'a::len word" where
  "le_word [] = 0"
| "le_word (b # bs) = ucast b OR push_bit 8 (le_word bs)"

fun le_bytes :: "nat \<Rightarrow> 'a::len word \<Rightarrow> u8 list" where
  "le_bytes 0 w = []"
| "le_bytes (Suc n) w = ucast w # le_bytes n (drop_bit 8 w)"

text \<open>
  \<open>struct ssl_st\<close> and \<open>struct BIO\<close> as the BPF target (LP64) lays them out: in
  \<open>ssl_st\<close>, \<open>version\<close> at 0, \<open>method\<close> at 8, \<open>rbio\<close> at 16, \<open>wbio\<close> at 24, 32 bytes in
  all; in \<open>BIO\<close>, three pointers and \<open>cb_arg\<close> at 0 to 31, \<open>init\<close>, \<open>shutdown\<close>,
  \<open>flags\<close>, \<open>retry_reason\<close> at 32 to 47, \<open>num\<close> at 48, 56 bytes in all. A structure
  read from foreign memory is its bytes; a field is decoded at its offset.
\<close>

definition sizeof_ssl_st :: nat where "sizeof_ssl_st = 32"
definition sizeof_BIO :: nat where "sizeof_BIO = 56"

definition rbio :: "u8 list \<Rightarrow> u64" where
  "rbio ssl_info = le_word (take 8 (drop 16 ssl_info))"

definition wbio :: "u8 list \<Rightarrow> u64" where
  "wbio ssl_info = le_word (take 8 (drop 24 ssl_info))"

definition num :: "u8 list \<Rightarrow> s32" where
  "num bio = le_word (take 4 (drop 48 bio))"

text \<open>
  \<open>struct sockaddr\<close>: \<open>sa_family\<close> (an unsigned 16-bit \<open>sa_family_t\<close>) at 0, \<open>sa_data\<close>
  at 2.
\<close>

definition sizeof_sa_family_t :: nat where "sizeof_sa_family_t = 2"
definition offsetof_sa_data :: u64 where "offsetof_sa_data = 2"

section \<open>openssl\_kern.c\<close>

datatype ssl_data_event_type = kSSLRead | kSSLWrite

definition invalidFD :: u32 where
  "invalidFD = 0"

text \<open>
  \<open>struct ssl_data_event_t\<close>. The record of \<^verbatim>\<open>nspr_kern.c\<close> has the same fields
  without \<open>fd\<close>, so the OpenSSL one extends it.
\<close>

record ssl_data_event_t =
  type :: ssl_data_event_type
  timestamp_ns :: u64
  pid :: u32
  tid :: u32
  data :: "u8 list"
  data_len :: s32
  comm :: "u8 list"

record openssl_data_event_t = ssl_data_event_t +
  fd :: u32

record connect_event_t =
  conn_timestamp_ns :: u64
  conn_pid :: u32
  conn_tid :: u32
  conn_fd :: u32
  sa_data :: "u8 list"
  conn_comm :: "u8 list"

record active_ssl_buf =
  buf_fd :: u32
  buf :: u64

text \<open>
  The maps of the program. \<open>tls_events\<close> and \<open>connect_events\<close> are the perf event
  arrays: the model keeps every record handed to \<open>bpf_perf_event_output\<close>, oldest first.
\<close>

record openssl_maps =
  tls_events :: "openssl_data_event_t list"
  connect_events :: "connect_event_t list"
  active_ssl_read_args_map :: "(u64, active_ssl_buf) bpf_hash"
  active_ssl_write_args_map :: "(u64, active_ssl_buf) bpf_hash"
  data_buffer_heap :: "nat \<Rightarrow> openssl_data_event_t"

definition create_ssl_data_event :: "pt_regs \<Rightarrow> openssl_maps \<Rightarrow> u64 \<Rightarrow> openssl_data_event_t option" where
  "create_ssl_data_event ctx st pid_tgid =
     (let kZero = (0 :: u32) in
      case bpf_percpu_array_lookup 1 (data_buffer_heap st) (cpu ctx) kZero of
        None \<Rightarrow> None
      | Some event \<Rightarrow>
          (let kMask32b = (0xffffffff :: u32) in
           Some (event\<lparr>timestamp_ns := ktime_ns ctx,
                       pid := ucast (drop_bit 32 pid_tgid),
                       tid := ucast (pid_tgid AND ucast kMask32b),
                       fd := invalidFD\<rparr>)))"

text \<open>
  \<open>event\<close> points into the slot of the executing CPU, so every assignment to it lands
  in \<open>data_buffer_heap\<close>; the model writes the finished record back in one step. The
  payload array keeps what an earlier record left beyond the first \<open>data_len\<close> bytes.
\<close>

definition process_SSL_data ::
  "build_config \<Rightarrow> pt_regs \<Rightarrow> openssl_maps \<Rightarrow> u64 \<Rightarrow> ssl_data_event_type \<Rightarrow> u64 \<Rightarrow> u32 \<Rightarrow> openssl_maps" where
  "process_SSL_data cfg ctx st pid_tgid ty b f =
     (let len = (ucast (PT_REGS_RC ctx) :: s32) in
      if len <s 0 then st
      else case create_ssl_data_event ctx st pid_tgid of
        None \<Rightarrow> st
      | Some event \<Rightarrow>
          (let event = event\<lparr>type := ty\<rparr>;
               event = event\<lparr>fd := f\<rparr>;
               event = event\<lparr>data_len :=
                 (if len <s MAX_DATA_SIZE_OPENSSL cfg
                  then len AND (MAX_DATA_SIZE_OPENSSL cfg - 1)
                  else MAX_DATA_SIZE_OPENSSL cfg)\<rparr>;
               event = event\<lparr>data := bpf_probe_read (mem ctx) (data event) (unat (data_len event)) b\<rparr>;
               event = event\<lparr>comm := bpf_get_current_comm ctx (TASK_COMM_LEN cfg)\<rparr>
           in st\<lparr>data_buffer_heap := (data_buffer_heap st)(cpu ctx := event),
                 tls_events := tls_events st @ [event]\<rparr>))"

definition probe_entry_SSL_write :: "build_config \<Rightarrow> pt_regs \<Rightarrow> openssl_maps \<Rightarrow> openssl_maps" where
  "probe_entry_SSL_write cfg ctx st =
     (let pid_tgid = current_pid_tgid ctx;
          p = (ucast (drop_bit 32 pid_tgid) :: u32) in
      if target_pid cfg \<noteq> 0 \<and> target_pid cfg \<noteq> ucast p then st
      else
        (let ssl = PT_REGS_PARM1 ctx;
             ssl_info = bpf_probe_read_user (mem ctx) [] sizeof_ssl_st ssl;
             bio_w = bpf_probe_read_user (mem ctx) [] sizeof_BIO (wbio ssl_info);
             f = (num bio_w :: u32);
             b = PT_REGS_PARM2 ctx;
             active_ssl_buf_t = \<lparr>buf_fd = f, buf = b\<rparr>
         in st\<lparr>active_ssl_write_args_map :=
                 bpf_map_update_elem args_map_max_entries (active_ssl_write_args_map st)
                   pid_tgid active_ssl_buf_t\<rparr>))"

text \<open>
  The return probes copy the stored buffer address out of the map value with
  \<open>bpf_probe_read\<close>; the map value is kernel memory that the lookup has just returned, so
  the copy yields the stored address.
\<close>

definition probe_ret_SSL_write :: "build_config \<Rightarrow> pt_regs \<Rightarrow> openssl_maps \<Rightarrow> openssl_maps" where
  "probe_ret_SSL_write cfg ctx st =
     (let pid_tgid = current_pid_tgid ctx;
          p = (ucast (drop_bit 32 pid_tgid) :: u32) in
      if target_pid cfg \<noteq> 0 \<and> target_pid cfg \<noteq> ucast p then st
      else
        (let st = (case bpf_map_lookup_elem (active_ssl_write_args_map st) pid_tgid of
                     Some active_ssl_buf_t \<Rightarrow>
                       process_SSL_data cfg ctx st pid_tgid kSSLWrite
                         (buf active_ssl_buf_t) (buf_fd active_ssl_buf_t)
                   | None \<Rightarrow> st)
         in st\<lparr>active_ssl_write_args_map :=
                 bpf_map_delete_elem (active_ssl_write_args_map st) pid_tgid\<rparr>))"

definition probe_entry_SSL_read :: "build_config \<Rightarrow> pt_regs \<Rightarrow> openssl_maps \<Rightarrow> openssl_maps" where
  "probe_entry_SSL_read cfg ctx st =
     (let pid_tgid = current_pid_tgid ctx;
          p = (ucast (drop_bit 32 pid_tgid) :: u32) in
      if target_pid cfg \<noteq> 0 \<and> target_pid cfg \<noteq> ucast p then st
      else
        (let ssl = PT_REGS_PARM1 ctx;
             ssl_info = bpf_probe_read_user (mem ctx) [] sizeof_ssl_st ssl;
             bio_r = bpf_probe_read_user (mem ctx) [] sizeof_BIO (rbio ssl_info);
             f = (num bio_r :: u32);
             b = PT_REGS_PARM2 ctx;
             active_ssl_buf_t = \<lparr>buf_fd = f, buf = b\<rparr>
         in st\<lparr>active_ssl_read_args_map :=
                 bpf_map_update_elem args_map_max_entries (active_ssl_read_args_map st)
                   pid_tgid active_ssl_buf_t\<rparr>))"

definition probe_ret_SSL_read :: "build_config \<Rightarrow> pt_regs \<Rightarrow> openssl_maps \<Rightarrow> openssl_maps" where
  "probe_ret_SSL_read cfg ctx st =
     (let pid_tgid = current_pid_tgid ctx;
          p = (ucast (drop_bit 32 pid_tgid) :: u32) in
      if target_pid cfg \<noteq> 0 \<and> target_pid cfg \<noteq> ucast p then st
      else
        (let st = (case bpf_map_lookup_elem (active_ssl_read_args_map st) pid_tgid of
                     Some active_ssl_buf_t \<Rightarrow>
                       process_SSL_data cfg ctx st pid_tgid kSSLRead
                         (buf active_ssl_buf_t) (buf_fd active_ssl_buf_t)
                   | None \<Rightarrow> st)
         in st\<lparr>active_ssl_read_args_map :=
                 bpf_map_delete_elem (active_ssl_read_args_map st) pid_tgid\<rparr>))"

definition probe_connect :: "build_config \<Rightarrow> pt_regs \<Rightarrow> openssl_maps \<Rightarrow> openssl_maps" where
  "probe_connect cfg ctx st =
     (let pid_tgid = current_pid_tgid ctx;
          p = (ucast (drop_bit 32 pid_tgid) :: u32) in
      if target_pid cfg \<noteq> 0 \<and> target_pid cfg \<noteq> ucast p then st
      else
        (let f = (ucast (PT_REGS_PARM1 ctx) :: u32);
             saddr = PT_REGS_PARM2 ctx in
         if saddr = 0 then st
         else
           (let address_family =
                  (le_word (bpf_probe_read (mem ctx) (replicate sizeof_sa_family_t 0)
                              sizeof_sa_family_t saddr) :: u16) in
            if uint address_family \<noteq> AF_INET cfg then st
            else
              (let conn = \<lparr>conn_timestamp_ns = ktime_ns ctx,
                           conn_pid = p,
                           conn_tid = ucast pid_tgid,
                           conn_fd = f,
                           sa_data = bpf_probe_read (mem ctx) (replicate (SA_DATA_LEN cfg) 0)
                                       (SA_DATA_LEN cfg) (saddr + offsetof_sa_data),
                           conn_comm = bpf_get_current_comm ctx (TASK_COMM_LEN cfg)\<rparr>
               in st\<lparr>connect_events := connect_events st @ [conn]\<rparr>))))"

section \<open>nspr\_kern.c\<close>

text \<open>
  The NSPR program keeps only the buffer address between entry and return, its record
  has no descriptor, and its process filter is compiled in only when
  \<open>KERNEL_LESS_5_2\<close> is not defined.
\<close>

record nspr_maps =
  nspr_events :: "ssl_data_event_t list"
  nspr_active_ssl_read_args_map :: "(u64, u64) bpf_hash"
  nspr_active_ssl_write_args_map :: "(u64, u64) bpf_hash"
  nspr_data_buffer_heap :: "nat \<Rightarrow> ssl_data_event_t"

definition nspr_create_ssl_data_event :: "pt_regs \<Rightarrow> nspr_maps \<Rightarrow> u64 \<Rightarrow> ssl_data_event_t option" where
  "nspr_create_ssl_data_event ctx st pid_tgid =
     (let kZero = (0 :: u32) in
      case bpf_percpu_array_lookup 1 (nspr_data_buffer_heap st) (cpu ctx) kZero of
        None \<Rightarrow> None
      | Some event \<Rightarrow>
          (let kMask32b = (0xffffffff :: u32) in
           Some (event\<lparr>timestamp_ns := ktime_ns ctx,
                       pid := ucast (drop_bit 32 pid_tgid),
                       tid := ucast (pid_tgid AND ucast kMask32b)\<rparr>)))"

definition nspr_process_SSL_data ::
  "build_config \<Rightarrow> pt_regs \<Rightarrow> nspr_maps \<Rightarrow> u64 \<Rightarrow> ssl_data_event_type \<Rightarrow> u64 \<Rightarrow> nspr_maps" where
  "nspr_process_SSL_data cfg ctx st pid_tgid ty b =
     (let len = (ucast (PT_REGS_RC ctx) :: s32) in
      if len <s 0 then st
      else case nspr_create_ssl_data_event ctx st pid_tgid of
        None \<Rightarrow> st
      | Some event \<Rightarrow>
          (let event = event\<lparr>type := ty\<rparr>;
               event = event\<lparr>data_len :=
                 (if len <s MAX_DATA_SIZE_OPENSSL cfg
                  then len AND (MAX_DATA_SIZE_OPENSSL cfg - 1)
                  else MAX_DATA_SIZE_OPENSSL cfg)\<rparr>;
               event = event\<lparr>data := bpf_probe_read (mem ctx) (data event) (unat (data_len event)) b\<rparr>;
               event = event\<lparr>comm := bpf_get_current_comm ctx (TASK_COMM_LEN cfg)\<rparr>
           in st\<lparr>nspr_data_buffer_heap := (nspr_data_buffer_heap st)(cpu ctx := event),
                 nspr_events := nspr_events st @ [event]\<rparr>))"

definition nspr_probe_entry_SSL_write :: "build_config \<Rightarrow> pt_regs \<Rightarrow> nspr_maps \<Rightarrow> nspr_maps" where
  "nspr_probe_entry_SSL_write cfg ctx st =
     (let pid_tgid = current_pid_tgid ctx;
          p = (ucast (drop_bit 32 pid_tgid) :: u32) in
      if \<not> KERNEL_LESS_5_2 cfg \<and> (target_pid cfg \<noteq> 0 \<and> target_pid cfg \<noteq> ucast p) then st
      else
        (let b = PT_REGS_PARM2 ctx
         in st\<lparr>nspr_active_ssl_write_args_map :=
                 bpf_map_update_elem args_map_max_entries (nspr_active_ssl_write_args_map st)
                   pid_tgid b\<rparr>))"

definition nspr_probe_ret_SSL_write :: "build_config \<Rightarrow> pt_regs \<Rightarrow> nspr_maps \<Rightarrow> nspr_maps" where
  "nspr_probe_ret_SSL_write cfg ctx st =
     (let pid_tgid = current_pid_tgid ctx;
          p = (ucast (drop_bit 32 pid_tgid) :: u32) in
      if \<not> KERNEL_LESS_5_2 cfg \<and> (target_pid cfg \<noteq> 0 \<and> target_pid cfg \<noteq> ucast p) then st
      else
        (let st = (case bpf_map_lookup_elem (nspr_active_ssl_write_args_map st) pid_tgid of
                     Some b \<Rightarrow> nspr_process_SSL_data cfg ctx st pid_tgid kSSLWrite b
                   | None \<Rightarrow> st)
         in st\<lparr>nspr_active_ssl_write_args_map :=
                 bpf_map_delete_elem (nspr_active_ssl_write_args_map st) pid_tgid\<rparr>))"

definition nspr_probe_entry_SSL_read :: "build_config \<Rightarrow> pt_regs \<Rightarrow> nspr_maps \<Rightarrow> nspr_maps" where
  "nspr_probe_entry_SSL_read cfg ctx st =
     (let pid_tgid = current_pid_tgid ctx;
          p = (ucast (drop_bit 32 pid_tgid) :: u32) in
      if \<not> KERNEL_LESS_5_2 cfg \<and> (target_pid cfg \<noteq> 0 \<and> target_pid cfg \<noteq> ucast p) then st
      else
        (let b = PT_REGS_PARM2 ctx
         in st\<lparr>nspr_active_ssl_read_args_map :=
                 bpf_map_update_elem args_map_max_entries (nspr_active_ssl_read_args_map st)
                   pid_tgid b\<rparr>))"

definition nspr_probe_ret_SSL_read :: "build_config \<Rightarrow> pt_regs \<Rightarrow> nspr_maps \<Rightarrow> nspr_maps" where
  "nspr_probe_ret_SSL_read cfg ctx st =
     (let pid_tgid = current_pid_tgid ctx;
          p = (ucast (drop_bit 32 pid_tgid) :: u32) in
      if \<not> KERNEL_LESS_5_2 cfg \<and> (target_pid cfg \<noteq> 0 \<and> target_pid cfg \<noteq> ucast p) then st
      else
        (let st = (case bpf_map_lookup_elem (nspr_active_ssl_read_args_map st) pid_tgid of
                     Some b \<Rightarrow> nspr_process_SSL_data cfg ctx st pid_tgid kSSLRead b
                   | None \<Rightarrow> st)
         in st\<lparr>nspr_active_ssl_read_args_map :=
                 bpf_map_delete_elem (nspr_active_ssl_read_args_map st) pid_tgid\<rparr>))"

section \<open>Runs of the probes\<close>

text \<open>
  Each probe runs to completion on the thread that made the traced call, so a session is
  a sequence of probe firings, each with its own invocation context, in any interleaving
  of the traced threads.
\<close>

datatype probe_point =
  SSL_write_entry | SSL_write_ret | SSL_read_entry | SSL_read_ret | connect_entry

fun openssl_fire :: "build_config \<Rightarrow> probe_point \<Rightarrow> pt_regs \<Rightarrow> openssl_maps \<Rightarrow> openssl_maps" where
  "openssl_fire cfg SSL_write_entry ctx st = probe_entry_SSL_write cfg ctx st"
| "openssl_fire cfg SSL_write_ret ctx st = probe_ret_SSL_write cfg ctx st"
| "openssl_fire cfg SSL_read_entry ctx st = probe_entry_SSL_read cfg ctx st"
| "openssl_fire cfg SSL_read_ret ctx st = probe_ret_SSL_read cfg ctx st"
| "openssl_fire cfg connect_entry ctx st = probe_connect cfg ctx st"

fun openssl_run :: "build_config \<Rightarrow> (probe_point \<times> pt_regs) list \<Rightarrow> openssl_maps \<Rightarrow> openssl_maps" where
  "openssl_run cfg [] st = st"
| "openssl_run cfg ((p, ctx) # evs) st = openssl_run cfg evs (openssl_fire cfg p ctx st)"

text \<open>The NSPR program attaches nothing to \<open>connect\<close>.\<close>

fun nspr_fire :: "build_config \<Rightarrow> probe_point \<Rightarrow> pt_regs \<Rightarrow> nspr_maps \<Rightarrow> nspr_maps" where
  "nspr_fire cfg SSL_write_entry ctx st = nspr_probe_entry_SSL_write cfg ctx st"
| "nspr_fire cfg SSL_write_ret ctx st = nspr_probe_ret_SSL_write cfg ctx st"
| "nspr_fire cfg SSL_read_entry ctx st = nspr_probe_entry_SSL_read cfg ctx st"
| "nspr_fire cfg SSL_read_ret ctx st = nspr_probe_ret_SSL_read cfg ctx st"
| "nspr_fire cfg connect_entry ctx st = st"

fun nspr_run :: "build_config \<Rightarrow> (probe_point \<times> pt_regs) list \<Rightarrow> nspr_maps \<Rightarrow> nspr_maps" where
  "nspr_run cfg [] st = st"
| "nspr_run cfg ((p, ctx) # evs) st = nspr_run cfg evs (nspr_fire cfg p ctx st)"

section \<open>Notions used in the statements\<close>

text \<open>The expression that \<open>process_SSL_data\<close> assigns to \<open>data_len\<close>.\<close>

definition clamp_len :: "build_config \<Rightarrow> s32 \<Rightarrow> s32" where
  "clamp_len cfg len =
     (if len <s MAX_DATA_SIZE_OPENSSL cfg then len AND (MAX_DATA_SIZE_OPENSSL cfg - 1)
      else MAX_DATA_SIZE_OPENSSL cfg)"

text \<open>
  Every key of a call-context store belongs to a process that the filter lets through:
  the invariant that ties a stored context to the filter at return time.
\<close>

definition keys_pass :: "build_config \<Rightarrow> (u64 \<times> 'v) list \<Rightarrow> bool" where
  "keys_pass cfg m \<longleftrightarrow> (\<forall>k \<in> fst ` set m. \<not> filtered_out cfg (pid_of k))"

definition openssl_inv :: "build_config \<Rightarrow> openssl_maps \<Rightarrow> bool" where
  "openssl_inv cfg st \<longleftrightarrow>
     keys_pass cfg (active_ssl_read_args_map st) \<and> keys_pass cfg (active_ssl_write_args_map st)"

definition nspr_filtered_out :: "build_config \<Rightarrow> u32 \<Rightarrow> bool" where
  "nspr_filtered_out cfg p \<longleftrightarrow> \<not> KERNEL_LESS_5_2 cfg \<and> filtered_out cfg p"

definition nspr_keys_pass :: "build_config \<Rightarrow> (u64 \<times> 'v) list \<Rightarrow> bool" where
  "nspr_keys_pass cfg m \<longleftrightarrow> (\<forall>k \<in> fst ` set m. \<not> nspr_filtered_out cfg (pid_of k))"

definition nspr_inv :: "build_config \<Rightarrow> nspr_maps \<Rightarrow> bool" where
  "nspr_inv cfg st \<longleftrightarrow>
     nspr_keys_pass cfg (nspr_active_ssl_read_args_map st) \<and>
     nspr_keys_pass cfg (nspr_active_ssl_write_args_map st)"

text \<open>
  \<open>emits_one_of_length before after n\<close>: the probe appended exactly one record to the
  channel, and its \<open>data_len\<close>, read as a signed integer, is \<open>n\<close>.
\<close>

definition emits_one_of_length :: "'a ssl_data_event_t_scheme list \<Rightarrow> 'a ssl_data_event_t_scheme list \<Rightarrow> int \<Rightarrow> bool" where
  "emits_one_of_length before after n \<longleftrightarrow>
     after = before @ [last after] \<and> sint (data_len (last after)) = n"

text \<open>
  \<open>has_room m k\<close>: an update of \<open>k\<close> in the call-context store \<open>m\<close> takes effect, because
  \<open>k\<close> is already there or the store is not full.
\<close>

definition has_room :: "('k, 'v) bpf_hash \<Rightarrow> 'k \<Rightarrow> bool" where
  "has_room m k \<longleftrightarrow> map_of m k \<noteq> None \<or> length m < args_map_max_entries"

text \<open>
  The entry-time reads fail: the connection object is unreadable and so is the address
  zero that its cleared copy then yields for the transport sub-object, or the transport
  sub-object itself is unreadable.
\<close>

definition transport_reads_fail :: "memory \<Rightarrow> u64 \<Rightarrow> u64 \<Rightarrow> bool" where
  "transport_reads_fail m ssl bio \<longleftrightarrow>
     (mem_read m ssl sizeof_ssl_st = None \<and> mem_read m 0 sizeof_BIO = None)
     \<or> mem_read m bio sizeof_BIO = None"

text \<open>The address family as \<open>probe_connect\<close> reads it from the \<open>sockaddr\<close> at \<open>saddr\<close>.\<close>

definition address_family :: "memory \<Rightarrow> u64 \<Rightarrow> u16" where
  "address_family m saddr =
     le_word (bpf_probe_read m (replicate sizeof_sa_family_t 0) sizeof_sa_family_t saddr)"

text \<open>A record carries the process and thread ids packed in the key \<open>k\<close>.\<close>

definition attributed_to :: "'a ssl_data_event_t_scheme \<Rightarrow> u64 \<Rightarrow> bool" where
  "attributed_to ev k \<longleftrightarrow> pid ev = pid_of k \<and> tid ev = ucast k"

section \<open>A concrete session\<close>

text \<open>
  A configuration with a 4096-byte payload buffer and no process filter, a call by thread
  101 of process 100 whose memory is wholly unmapped, and the empty maps a session starts
  with.
\<close>

definition example_config :: build_config where
  "example_config =
     \<lparr>MAX_DATA_SIZE_OPENSSL = 4096, TASK_COMM_LEN = 16, SA_DATA_LEN = 14, AF_INET = 2,
      target_pid = 0, KERNEL_LESS_5_2 = False\<rparr>"

definition unmapped :: memory where
  "unmapped = (\<lambda>a. None)"

definition example_call :: "u64 \<Rightarrow> pt_regs" where
  "example_call rc =
     \<lparr>PT_REGS_PARM1 = 0x1000, PT_REGS_PARM2 = 0x2000, PT_REGS_RC = rc,
      current_pid_tgid = 0x6400000065, ktime_ns = 1, current_comm = [], cpu = 0,
      mem = unmapped\<rparr>"

definition blank_event :: ssl_data_event_t where
  "blank_event =
     \<lparr>type = kSSLRead, timestamp_ns = 0, pid = 0, tid = 0, data = [], data_len = 0, comm = []\<rparr>"

definition openssl_start :: openssl_maps where
  "openssl_start =
     \<lparr>tls_events = [], connect_events = [], active_ssl_read_args_map = [],
      active_ssl_write_args_map = [],
      data_buffer_heap = (\<lambda>c. ssl_data_event_t.extend blank_event (openssl_data_event_t.fields invalidFD))\<rparr>"

definition nspr_start :: nspr_maps where
  "nspr_start =
     \<lparr>nspr_events = [], nspr_active_ssl_read_args_map = [], nspr_active_ssl_write_args_map = [],
      nspr_data_buffer_heap = (\<lambda>c. blank_event)\<rparr>"

definition example_session :: "(probe_point \<times> pt_regs) list" where
  "example_session = [(SSL_write_entry, example_call 0), (SSL_read_entry, example_call 0)]"

text \<open>A memory with the bytes \<open>bs\<close> at \<open>base\<close>, and \<open>m\<close> elsewhere.\<close>

definition mem_segment :: "u64 \<Rightarrow> u8 list \<Rightarrow> memory \<Rightarrow> memory" where
  "mem_segment base bs m a =
     (if a - base < of_nat (length bs) then Some (bs ! unat (a - base)) else m a)"

text \<open>
  A connection object at \<open>0x1000\<close> whose \<open>rbio\<close> is at \<open>0x3000\<close> (descriptor 7) and whose
  \<open>wbio\<close> is at \<open>0x4000\<close> (descriptor 9).
\<close>

definition example_ssl_st :: "u8 list" where
  "example_ssl_st = replicate 16 0 @ le_bytes 8 (0x3000 :: u64) @ le_bytes 8 (0x4000 :: u64)"

definition example_BIO :: "u32 \<Rightarrow> u8 list" where
  "example_BIO d = replicate 48 0 @ le_bytes 4 d @ replicate 4 0"

definition example_memory :: memory where
  "example_memory =
     mem_segment 0x1000 example_ssl_st
       (mem_segment 0x3000 (example_BIO 7) (mem_segment 0x4000 (example_BIO 9) unmapped))"

text \<open>
  A \<open>connect\<close> to 10.0.0.1, port 443: family 2, then the 14 bytes of \<open>sa_data\<close>.
\<close>

definition example_sa_data :: "u8 list" where
  "example_sa_data = [0x01, 0xBB, 10, 0, 0, 1, 0, 0, 0, 0, 0, 0, 0, 0]"

definition example_connect :: pt_regs where
  "example_connect = example_call 0\<lparr>mem := mem_segment 0x2000 ([2, 0] @ example_sa_data) unmapped\<rparr>"

text \<open>
  A build of the NSPR program for an old kernel, with a filter for process 7.
\<close>

definition legacy_config :: build_config where
  "legacy_config = example_config\<lparr>target_pid := 7, KERNEL_LESS_5_2 := True\<rparr>"

text \<open>The same filter on a current kernel.\<close>

definition strict_config :: build_config where
  "strict_config = example_config\<lparr>target_pid := 7\<rparr>"

text \<open>
  Thread \<open>i\<close> of process 100 enters \<open>SSL_write\<close>; \<open>crowd n\<close> is the first \<open>n\<close> threads doing
  so, none of which has returned yet.
\<close>

definition thread_call :: "nat \<Rightarrow> pt_regs" where
  "thread_call i = example_call 0\<lparr>current_pid_tgid := 0x6400000000 + of_nat i\<rparr>"

definition crowd :: "nat \<Rightarrow> (probe_point \<times> pt_regs) list" where
  "crowd n = map (\<lambda>i. (SSL_write_entry, thread_call i)) [0..<n]"

text \<open>Thread 7 enters \<open>SSL_write\<close> and \<open>SSL_read\<close> and returns from \<open>SSL_write\<close>.\<close>

definition example_others :: "(probe_point \<times> pt_regs) list" where
  "example_others =
     [(SSL_write_entry, thread_call 7), (SSL_read_entry, thread_call 7),
      (SSL_write_ret, thread_call 7\<lparr>PT_REGS_RC := 3\<rparr>)]"

text \<open>
  The call of thread 101 again, in a process that has mapped address zero: the 56 bytes
  there read as a transport object with descriptor 9, and nothing else is mapped.
\<close>

definition null_page_call :: "u64 \<Rightarrow> pt_regs" where
  "null_page_call rc = example_call rc\<lparr>mem := mem_segment 0 (example_BIO 9) unmapped\<rparr>"

section \<open>Auxiliary lemmas\<close>

lemma sint_pow2: "k < 31 \<Longrightarrow> sint ((2::32 word) ^ k) = 2 ^ k"
proof -
  assume k: "k < 31"
  have "(2::int) ^ k < 2 ^ 31" using k power_strict_increasing [of k 31 "2::int"] by simp
  moreover have "- (2 ^ 31) \<le> (2::int) ^ k"
    by (rule order_trans [of _ 0]) simp_all
  ultimately have "signed_take_bit 31 ((2::int) ^ k) = 2 ^ k"
    by (simp only: signed_take_bit_int_eq_self)
  moreover have "sint ((2::32 word) ^ k) = signed_take_bit 31 ((2::int) ^ k)"
    by (simp only: sint_sbintrunc' flip: word_of_int_2p) simp
  ultimately show ?thesis by simp
qed

lemma nonneg_uint: "0 \<le> sint (w::32 word) \<Longrightarrow> uint w = sint w"
proof -
  assume nn: "0 \<le> sint w"
  have "sint w < 2 ^ 32" using sint_less [of w] by simp
  with nn have "take_bit 32 (sint w) = sint w" by (simp add: take_bit_int_eq_self)
  then show ?thesis by (simp add: uint_sint)
qed

lemma clamp_len_eq_min:
  assumes M: "M = (2::32 word) ^ k" and k: "k < 31" and nn: "0 \<le> sint len"
  shows "sint (if len <s M then len AND (M - 1) else M) = min (sint len) (sint M)"
proof (cases "len <s M")
  case True
  have sM: "sint M = 2 ^ k" using M k by (simp add: sint_pow2)
  from True have lt: "sint len < 2 ^ k" by (simp add: word_sless_alt sM)
  have "uint len < 2 ^ k" using lt nn by (simp add: nonneg_uint)
  then have "len < 2 ^ k" using k by (simp add: word_2p_lem word_size)
  then have "len AND (M - 1) = len"
    unfolding M by (simp add: less_mask_eq flip: mask_eq_decr_exp)
  with True show ?thesis by (simp add: word_sless_alt min_def)
next
  case False
  then show ?thesis by (simp add: word_sless_alt min_def)
qed

lemma le_word_le_bytes_aux:
  "(le_word (le_bytes n w) :: 'a::len word) = take_bit (8 * n) w"
proof (induction n arbitrary: w)
  case 0
  show ?case by simp
next
  case (Suc n)
  show ?case
    apply (simp add: Suc)
    apply (rule bit_word_eqI)
    apply (auto simp: bit_simps)
    done
qed

lemma tid_low_bits:
  "(ucast ((i::u64) AND 0xffffffff) :: u32) = ucast i"
proof -
  have "(0xffffffff::u64) = mask 32" by (simp add: mask_eq_exp_minus_1)
  then have "i AND 0xffffffff = take_bit 32 i" by (simp only: take_bit_eq_mask)
  then show ?thesis
    by (simp only:) (rule bit_word_eqI, simp add: bit_simps)
qed

lemma process_SSL_data_neg:
  "(ucast (PT_REGS_RC ctx) :: s32) <s 0 \<Longrightarrow> process_SSL_data cfg ctx st i ty b f = st"
  by (simp add: process_SSL_data_def)

lemma process_SSL_data_maps:
  "active_ssl_write_args_map (process_SSL_data cfg ctx st i ty b f) = active_ssl_write_args_map st"
  "active_ssl_read_args_map (process_SSL_data cfg ctx st i ty b f) = active_ssl_read_args_map st"
  "connect_events (process_SSL_data cfg ctx st i ty b f) = connect_events st"
  by (simp_all add: process_SSL_data_def create_ssl_data_event_def bpf_percpu_array_lookup_def Let_def)

lemma process_SSL_data_event:
  assumes "\<not> (ucast (PT_REGS_RC ctx) :: s32) <s 0"
  shows "\<exists>ev. tls_events (process_SSL_data cfg ctx st i ty b f) = tls_events st @ [ev]
           \<and> data_len ev = clamp_len cfg (ucast (PT_REGS_RC ctx))
           \<and> pid ev = ucast (drop_bit 32 i) \<and> tid ev = ucast i
           \<and> fd ev = f \<and> type ev = ty \<and> timestamp_ns ev = ktime_ns ctx
           \<and> data ev = bpf_probe_read (mem ctx) (data (data_buffer_heap st (cpu ctx)))
                          (unat (clamp_len cfg (ucast (PT_REGS_RC ctx)))) b"
  using assms
  apply (simp add: process_SSL_data_def create_ssl_data_event_def bpf_percpu_array_lookup_def Let_def clamp_len_def tid_low_bits)
  done

lemma lookup_update_same:
  "map_of m k \<noteq> None \<or> length m < n \<Longrightarrow>
     bpf_map_lookup_elem (bpf_map_update_elem n m k v) k = Some v"
  by (auto simp: bpf_map_lookup_elem_def bpf_map_update_elem_def update_conv')

lemma lookup_update_other:
  "k' \<noteq> k \<Longrightarrow>
     bpf_map_lookup_elem (bpf_map_update_elem n m k v) k' = bpf_map_lookup_elem m k'"
  by (auto simp: bpf_map_lookup_elem_def bpf_map_update_elem_def update_conv')

lemma lookup_delete_same:
  "bpf_map_lookup_elem (bpf_map_delete_elem m k) k = None"
  by (simp add: bpf_map_lookup_elem_def bpf_map_delete_elem_def delete_conv')

lemma lookup_delete_other:
  "k' \<noteq> k \<Longrightarrow> bpf_map_lookup_elem (bpf_map_delete_elem m k) k' = bpf_map_lookup_elem m k'"
  by (simp add: bpf_map_lookup_elem_def bpf_map_delete_elem_def delete_conv')

lemma keys_update:
  "fst ` set (bpf_map_update_elem n m k v) \<subseteq> insert k (fst ` set m)"
  by (auto simp: bpf_map_update_elem_def dom_update)

lemma keys_delete:
  "fst ` set (bpf_map_delete_elem m k) \<subseteq> fst ` set m"
  by (simp add: bpf_map_delete_elem_def dom_delete_subset)

lemma lookup_Some_key:
  "bpf_map_lookup_elem m k = Some v \<Longrightarrow> k \<in> fst ` set m"
  by (auto simp: bpf_map_lookup_elem_def dest: map_of_SomeD intro: rev_image_eqI)

lemma keys_pass_update:
  "keys_pass cfg m \<Longrightarrow> \<not> filtered_out cfg (pid_of k) \<Longrightarrow>
     keys_pass cfg (bpf_map_update_elem n m k v)"
  unfolding keys_pass_def using keys_update [of n m k v] by blast

lemma keys_pass_delete:
  "keys_pass cfg m \<Longrightarrow> keys_pass cfg (bpf_map_delete_elem m k)"
  unfolding keys_pass_def using keys_delete [of m k] by blast

lemma openssl_fire_inv:
  "openssl_inv cfg st \<Longrightarrow> openssl_inv cfg (openssl_fire cfg p ctx st)"
proof (cases p)
  case SSL_write_entry
  assume "openssl_inv cfg st"
  then show ?thesis unfolding SSL_write_entry
    by (simp add: openssl_inv_def probe_entry_SSL_write_def Let_def keys_pass_update
        filtered_out_def pid_of_def)
next
  case SSL_write_ret
  assume "openssl_inv cfg st"
  then show ?thesis unfolding SSL_write_ret
    by (simp add: openssl_inv_def probe_ret_SSL_write_def Let_def keys_pass_delete
        process_SSL_data_maps split: option.split)
next
  case SSL_read_entry
  assume "openssl_inv cfg st"
  then show ?thesis unfolding SSL_read_entry
    by (simp add: openssl_inv_def probe_entry_SSL_read_def Let_def keys_pass_update
        filtered_out_def pid_of_def)
next
  case SSL_read_ret
  assume "openssl_inv cfg st"
  then show ?thesis unfolding SSL_read_ret
    by (simp add: openssl_inv_def probe_ret_SSL_read_def Let_def keys_pass_delete
        process_SSL_data_maps split: option.split)
next
  case connect_entry
  assume "openssl_inv cfg st"
  then show ?thesis unfolding connect_entry
    by (simp add: openssl_inv_def probe_connect_def Let_def)
qed

lemma openssl_run_inv:
  "openssl_inv cfg st \<Longrightarrow> openssl_inv cfg (openssl_run cfg evs st)"
  by (induction evs arbitrary: st) (auto simp: openssl_fire_inv)

lemma openssl_inv_empty:
  "active_ssl_read_args_map st = [] \<Longrightarrow> active_ssl_write_args_map st = [] \<Longrightarrow> openssl_inv cfg st"
  by (simp add: openssl_inv_def keys_pass_def)

lemma openssl_inv_lookup:
  "openssl_inv cfg st \<Longrightarrow> bpf_map_lookup_elem (active_ssl_write_args_map st) k = Some c \<Longrightarrow>
     \<not> filtered_out cfg (pid_of k)"
  "openssl_inv cfg st \<Longrightarrow> bpf_map_lookup_elem (active_ssl_read_args_map st) k = Some c \<Longrightarrow>
     \<not> filtered_out cfg (pid_of k)"
  by (auto simp: openssl_inv_def keys_pass_def dest: lookup_Some_key)

lemma nspr_process_SSL_data_neg:
  "(ucast (PT_REGS_RC ctx) :: s32) <s 0 \<Longrightarrow> nspr_process_SSL_data cfg ctx st i ty b = st"
  by (simp add: nspr_process_SSL_data_def)

lemma nspr_process_SSL_data_maps:
  "nspr_active_ssl_write_args_map (nspr_process_SSL_data cfg ctx st i ty b) = nspr_active_ssl_write_args_map st"
  "nspr_active_ssl_read_args_map (nspr_process_SSL_data cfg ctx st i ty b) = nspr_active_ssl_read_args_map st"
  by (simp_all add: nspr_process_SSL_data_def nspr_create_ssl_data_event_def bpf_percpu_array_lookup_def Let_def)

lemma nspr_process_SSL_data_event:
  assumes "\<not> (ucast (PT_REGS_RC ctx) :: s32) <s 0"
  shows "\<exists>ev. nspr_events (nspr_process_SSL_data cfg ctx st i ty b) = nspr_events st @ [ev]
           \<and> data_len ev = clamp_len cfg (ucast (PT_REGS_RC ctx))
           \<and> pid ev = ucast (drop_bit 32 i) \<and> tid ev = ucast i
           \<and> type ev = ty \<and> timestamp_ns ev = ktime_ns ctx
           \<and> data ev = bpf_probe_read (mem ctx) (data (nspr_data_buffer_heap st (cpu ctx)))
                          (unat (clamp_len cfg (ucast (PT_REGS_RC ctx)))) b"
  using assms
  by (simp add: nspr_process_SSL_data_def nspr_create_ssl_data_event_def bpf_percpu_array_lookup_def
      Let_def clamp_len_def tid_low_bits)

lemma nspr_keys_pass_update:
  "nspr_keys_pass cfg m \<Longrightarrow> \<not> nspr_filtered_out cfg (pid_of k) \<Longrightarrow>
     nspr_keys_pass cfg (bpf_map_update_elem n m k v)"
  unfolding nspr_keys_pass_def using keys_update [of n m k v] by blast

lemma nspr_keys_pass_delete:
  "nspr_keys_pass cfg m \<Longrightarrow> nspr_keys_pass cfg (bpf_map_delete_elem m k)"
  unfolding nspr_keys_pass_def using keys_delete [of m k] by blast

lemma nspr_fire_inv:
  "nspr_inv cfg st \<Longrightarrow> nspr_inv cfg (nspr_fire cfg p ctx st)"
proof (cases p)
  case SSL_write_entry
  assume "nspr_inv cfg st"
  then show ?thesis unfolding SSL_write_entry
    by (simp add: nspr_inv_def nspr_probe_entry_SSL_write_def Let_def nspr_keys_pass_update
        nspr_filtered_out_def filtered_out_def pid_of_def)
next
  case SSL_write_ret
  assume "nspr_inv cfg st"
  then show ?thesis unfolding SSL_write_ret
    by (simp add: nspr_inv_def nspr_probe_ret_SSL_write_def Let_def nspr_keys_pass_delete
        nspr_process_SSL_data_maps split: option.split)
next
  case SSL_read_entry
  assume "nspr_inv cfg st"
  then show ?thesis unfolding SSL_read_entry
    by (simp add: nspr_inv_def nspr_probe_entry_SSL_read_def Let_def nspr_keys_pass_update
        nspr_filtered_out_def filtered_out_def pid_of_def)
next
  case SSL_read_ret
  assume "nspr_inv cfg st"
  then show ?thesis unfolding SSL_read_ret
    by (simp add: nspr_inv_def nspr_probe_ret_SSL_read_def Let_def nspr_keys_pass_delete
        nspr_process_SSL_data_maps split: option.split)
next
  case connect_entry
  assume "nspr_inv cfg st"
  then show ?thesis unfolding connect_entry by simp
qed

lemma nspr_run_inv:
  "nspr_inv cfg st \<Longrightarrow> nspr_inv cfg (nspr_run cfg evs st)"
  by (induction evs arbitrary: st) (auto simp: nspr_fire_inv)

lemma nspr_inv_empty:
  "nspr_active_ssl_read_args_map st = [] \<Longrightarrow> nspr_active_ssl_write_args_map st = [] \<Longrightarrow>
     nspr_inv cfg st"
  by (simp add: nspr_inv_def nspr_keys_pass_def)

lemma nspr_inv_lookup:
  "nspr_inv cfg st \<Longrightarrow> bpf_map_lookup_elem (nspr_active_ssl_write_args_map st) k = Some c \<Longrightarrow>
     \<not> nspr_filtered_out cfg (pid_of k)"
  "nspr_inv cfg st \<Longrightarrow> bpf_map_lookup_elem (nspr_active_ssl_read_args_map st) k = Some c \<Longrightarrow>
     \<not> nspr_filtered_out cfg (pid_of k)"
  by (auto simp: nspr_inv_def nspr_keys_pass_def dest: lookup_Some_key)

lemma probe_ret_SSL_write_events:
  "tls_events (probe_ret_SSL_write cfg ctx st) =
     (if filtered_out cfg (pid_of (current_pid_tgid ctx)) then tls_events st
      else case bpf_map_lookup_elem (active_ssl_write_args_map st) (current_pid_tgid ctx) of
             None \<Rightarrow> tls_events st
           | Some c \<Rightarrow> tls_events (process_SSL_data cfg ctx st (current_pid_tgid ctx) kSSLWrite
                                      (buf c) (buf_fd c)))"
  by (simp add: probe_ret_SSL_write_def Let_def filtered_out_def pid_of_def split: option.split)

lemma probe_ret_SSL_read_events:
  "tls_events (probe_ret_SSL_read cfg ctx st) =
     (if filtered_out cfg (pid_of (current_pid_tgid ctx)) then tls_events st
      else case bpf_map_lookup_elem (active_ssl_read_args_map st) (current_pid_tgid ctx) of
             None \<Rightarrow> tls_events st
           | Some c \<Rightarrow> tls_events (process_SSL_data cfg ctx st (current_pid_tgid ctx) kSSLRead
                                      (buf c) (buf_fd c)))"
  by (simp add: probe_ret_SSL_read_def Let_def filtered_out_def pid_of_def split: option.split)

lemma nspr_probe_ret_SSL_write_events:
  "nspr_events (nspr_probe_ret_SSL_write cfg ctx st) =
     (if nspr_filtered_out cfg (pid_of (current_pid_tgid ctx)) then nspr_events st
      else case bpf_map_lookup_elem (nspr_active_ssl_write_args_map st) (current_pid_tgid ctx) of
             None \<Rightarrow> nspr_events st
           | Some b \<Rightarrow> nspr_events (nspr_process_SSL_data cfg ctx st (current_pid_tgid ctx) kSSLWrite b))"
  by (simp add: nspr_probe_ret_SSL_write_def Let_def nspr_filtered_out_def filtered_out_def pid_of_def
      split: option.split)

lemma nspr_probe_ret_SSL_read_events:
  "nspr_events (nspr_probe_ret_SSL_read cfg ctx st) =
     (if nspr_filtered_out cfg (pid_of (current_pid_tgid ctx)) then nspr_events st
      else case bpf_map_lookup_elem (nspr_active_ssl_read_args_map st) (current_pid_tgid ctx) of
             None \<Rightarrow> nspr_events st
           | Some b \<Rightarrow> nspr_events (nspr_process_SSL_data cfg ctx st (current_pid_tgid ctx) kSSLRead b))"
  by (simp add: nspr_probe_ret_SSL_read_def Let_def nspr_filtered_out_def filtered_out_def pid_of_def
      split: option.split)

lemma emits_one_of_lengthI:
  "after = before @ [ev] \<Longrightarrow> sint (data_len ev) = n \<Longrightarrow> emits_one_of_length before after n"
  by (simp add: emits_one_of_length_def)

lemma sint_clamp_len:
  assumes "MAX_DATA_SIZE_OPENSSL cfg = 2 ^ k" and "k < 31" and "0 \<le> sint len"
  shows "sint (clamp_len cfg len) = min (sint len) (sint (MAX_DATA_SIZE_OPENSSL cfg))"
  unfolding clamp_len_def using assms by (rule clamp_len_eq_min)

text \<open>
  The power of two is needed: with a capacity of 1000 the mask is \<open>999\<close>, whose bit 3
  is clear, and a return value of 8 is clamped to 0.
\<close>

lemma clamp_len_not_min_otherwise:
  "clamp_len (example_config\<lparr>MAX_DATA_SIZE_OPENSSL := 1000\<rparr>) 8 = 0"
  by (simp add: clamp_len_def word_sless_alt)

lemma openssl_write_one:
  assumes M: "MAX_DATA_SIZE_OPENSSL cfg = 2 ^ k" "k < 31"
    and nn: "0 \<le> sint (ucast (PT_REGS_RC ctx) :: s32)"
    and inv: "openssl_inv cfg st"
    and found: "bpf_map_lookup_elem (active_ssl_write_args_map st) (current_pid_tgid ctx) \<noteq> None"
  shows "emits_one_of_length (tls_events st) (tls_events (probe_ret_SSL_write cfg ctx st))
           (min (sint (ucast (PT_REGS_RC ctx) :: s32)) (sint (MAX_DATA_SIZE_OPENSSL cfg)))"
proof -
  from found obtain c where c: "bpf_map_lookup_elem (active_ssl_write_args_map st) (current_pid_tgid ctx) = Some c"
    by auto
  with inv have pass: "\<not> filtered_out cfg (pid_of (current_pid_tgid ctx))"
    by (rule openssl_inv_lookup)
  from nn have nneg: "\<not> (ucast (PT_REGS_RC ctx) :: s32) <s 0" by (simp add: word_sless_alt)
  from process_SSL_data_event [OF nneg, of cfg st "current_pid_tgid ctx" kSSLWrite "buf c" "buf_fd c"]
  obtain ev where ev: "tls_events (process_SSL_data cfg ctx st (current_pid_tgid ctx) kSSLWrite (buf c) (buf_fd c))
        = tls_events st @ [ev]" "data_len ev = clamp_len cfg (ucast (PT_REGS_RC ctx))"
    by blast
  have "tls_events (probe_ret_SSL_write cfg ctx st) = tls_events st @ [ev]"
    by (simp add: probe_ret_SSL_write_events pass c ev)
  moreover have "sint (data_len ev) = min (sint (ucast (PT_REGS_RC ctx) :: s32)) (sint (MAX_DATA_SIZE_OPENSSL cfg))"
    by (simp only: ev sint_clamp_len [OF M nn])
  ultimately show ?thesis by (rule emits_one_of_lengthI)
qed

lemma nspr_write_one:
  assumes M: "MAX_DATA_SIZE_OPENSSL cfg = 2 ^ k" "k < 31"
    and nn: "0 \<le> sint (ucast (PT_REGS_RC ctx) :: s32)"
    and inv: "nspr_inv cfg st"
    and found: "bpf_map_lookup_elem (nspr_active_ssl_write_args_map st) (current_pid_tgid ctx) \<noteq> None"
  shows "emits_one_of_length (nspr_events st) (nspr_events (nspr_probe_ret_SSL_write cfg ctx st))
           (min (sint (ucast (PT_REGS_RC ctx) :: s32)) (sint (MAX_DATA_SIZE_OPENSSL cfg)))"
proof -
  from found obtain c where c: "bpf_map_lookup_elem (nspr_active_ssl_write_args_map st) (current_pid_tgid ctx) = Some c"
    by auto
  with inv have pass: "\<not> nspr_filtered_out cfg (pid_of (current_pid_tgid ctx))"
    by (rule nspr_inv_lookup)
  from nn have nneg: "\<not> (ucast (PT_REGS_RC ctx) :: s32) <s 0" by (simp add: word_sless_alt)
  from nspr_process_SSL_data_event [OF nneg, of cfg st "current_pid_tgid ctx" kSSLWrite c]
  obtain ev where ev: "nspr_events (nspr_process_SSL_data cfg ctx st (current_pid_tgid ctx) kSSLWrite c)
        = nspr_events st @ [ev]" "data_len ev = clamp_len cfg (ucast (PT_REGS_RC ctx))"
    by blast
  have "nspr_events (nspr_probe_ret_SSL_write cfg ctx st) = nspr_events st @ [ev]"
    by (simp add: nspr_probe_ret_SSL_write_events pass c ev)
  moreover have "sint (data_len ev) = min (sint (ucast (PT_REGS_RC ctx) :: s32)) (sint (MAX_DATA_SIZE_OPENSSL cfg))"
    by (simp only: ev sint_clamp_len [OF M nn])
  ultimately show ?thesis by (rule emits_one_of_lengthI)
qed

lemma openssl_read_one:
  assumes M: "MAX_DATA_SIZE_OPENSSL cfg = 2 ^ k" "k < 31"
    and nn: "0 \<le> sint (ucast (PT_REGS_RC ctx) :: s32)"
    and inv: "openssl_inv cfg st"
    and found: "bpf_map_lookup_elem (active_ssl_read_args_map st) (current_pid_tgid ctx) \<noteq> None"
  shows "emits_one_of_length (tls_events st) (tls_events (probe_ret_SSL_read cfg ctx st))
           (min (sint (ucast (PT_REGS_RC ctx) :: s32)) (sint (MAX_DATA_SIZE_OPENSSL cfg)))"
proof -
  from found obtain c where c: "bpf_map_lookup_elem (active_ssl_read_args_map st) (current_pid_tgid ctx) = Some c"
    by auto
  with inv have pass: "\<not> filtered_out cfg (pid_of (current_pid_tgid ctx))"
    by (rule openssl_inv_lookup)
  from nn have nneg: "\<not> (ucast (PT_REGS_RC ctx) :: s32) <s 0" by (simp add: word_sless_alt)
  from process_SSL_data_event [OF nneg, of cfg st "current_pid_tgid ctx" kSSLRead "buf c" "buf_fd c"]
  obtain ev where ev: "tls_events (process_SSL_data cfg ctx st (current_pid_tgid ctx) kSSLRead (buf c) (buf_fd c))
        = tls_events st @ [ev]" "data_len ev = clamp_len cfg (ucast (PT_REGS_RC ctx))"
    by blast
  have "tls_events (probe_ret_SSL_read cfg ctx st) = tls_events st @ [ev]"
    by (simp add: probe_ret_SSL_read_events pass c ev)
  moreover have "sint (data_len ev) = min (sint (ucast (PT_REGS_RC ctx) :: s32)) (sint (MAX_DATA_SIZE_OPENSSL cfg))"
    by (simp only: ev sint_clamp_len [OF M nn])
  ultimately show ?thesis by (rule emits_one_of_lengthI)
qed

lemma nspr_read_one:
  assumes M: "MAX_DATA_SIZE_OPENSSL cfg = 2 ^ k" "k < 31"
    and nn: "0 \<le> sint (ucast (PT_REGS_RC ctx) :: s32)"
    and inv: "nspr_inv cfg st"
    and found: "bpf_map_lookup_elem (nspr_active_ssl_read_args_map st) (current_pid_tgid ctx) \<noteq> None"
  shows "emits_one_of_length (nspr_events st) (nspr_events (nspr_probe_ret_SSL_read cfg ctx st))
           (min (sint (ucast (PT_REGS_RC ctx) :: s32)) (sint (MAX_DATA_SIZE_OPENSSL cfg)))"
proof -
  from found obtain c where c: "bpf_map_lookup_elem (nspr_active_ssl_read_args_map st) (current_pid_tgid ctx) = Some c"
    by auto
  with inv have pass: "\<not> nspr_filtered_out cfg (pid_of (current_pid_tgid ctx))"
    by (rule nspr_inv_lookup)
  from nn have nneg: "\<not> (ucast (PT_REGS_RC ctx) :: s32) <s 0" by (simp add: word_sless_alt)
  from nspr_process_SSL_data_event [OF nneg, of cfg st "current_pid_tgid ctx" kSSLRead c]
  obtain ev where ev: "nspr_events (nspr_process_SSL_data cfg ctx st (current_pid_tgid ctx) kSSLRead c)
        = nspr_events st @ [ev]" "data_len ev = clamp_len cfg (ucast (PT_REGS_RC ctx))"
    by blast
  have "nspr_events (nspr_probe_ret_SSL_read cfg ctx st) = nspr_events st @ [ev]"
    by (simp add: nspr_probe_ret_SSL_read_events pass c ev)
  moreover have "sint (data_len ev) = min (sint (ucast (PT_REGS_RC ctx) :: s32)) (sint (MAX_DATA_SIZE_OPENSSL cfg))"
    by (simp only: ev sint_clamp_len [OF M nn])
  ultimately show ?thesis by (rule emits_one_of_lengthI)
qed

lemma example_session_entries:
  "bpf_map_lookup_elem (active_ssl_write_args_map (openssl_run example_config example_session openssl_start))
      (current_pid_tgid (example_call rc)) \<noteq> None"
  "bpf_map_lookup_elem (active_ssl_read_args_map (openssl_run example_config example_session openssl_start))
      (current_pid_tgid (example_call rc)) \<noteq> None"
  "bpf_map_lookup_elem (nspr_active_ssl_write_args_map (nspr_run example_config example_session nspr_start))
      (current_pid_tgid (example_call rc)) \<noteq> None"
  "bpf_map_lookup_elem (nspr_active_ssl_read_args_map (nspr_run example_config example_session nspr_start))
      (current_pid_tgid (example_call rc)) \<noteq> None"
  by (simp_all add: example_session_def example_config_def example_call_def openssl_start_def nspr_start_def
      probe_entry_SSL_write_def probe_entry_SSL_read_def nspr_probe_entry_SSL_write_def
      nspr_probe_entry_SSL_read_def bpf_map_update_elem_def bpf_map_lookup_elem_def
      args_map_max_entries_def Let_def)

lemma example_start_empty:
  "active_ssl_read_args_map openssl_start = []" "active_ssl_write_args_map openssl_start = []"
  "nspr_active_ssl_read_args_map nspr_start = []" "nspr_active_ssl_write_args_map nspr_start = []"
  by (simp_all add: openssl_start_def nspr_start_def)

lemma example_rc:
  "sint (ucast (PT_REGS_RC (example_call 5)) :: s32) = 5"
  "MAX_DATA_SIZE_OPENSSL example_config = 2 ^ 12"
  "sint (MAX_DATA_SIZE_OPENSSL example_config) = 4096"
  "sint (ucast (PT_REGS_RC (example_call 5000)) :: s32) = 5000"
  by (simp_all add: example_call_def example_config_def)




lemma mem_read_unmapped:
  "mem_read unmapped a n = (if n = 0 then Some [] else None)"
  by (auto simp: mem_read_def unmapped_def list_all_iff)

lemma mem_read_zero: "mem_read m a 0 = Some []"
  by (simp add: mem_read_def)

lemma mem_read_fail_pos: "mem_read m a n = None \<Longrightarrow> 0 < n"
  by (cases n) (simp_all add: mem_read_zero)

lemma bpf_probe_read_fail:
  "mem_read m src n = None \<Longrightarrow> take n (bpf_probe_read m dst n src) = replicate n 0"
  by (simp add: bpf_probe_read_def)

lemma example_clamp: "clamp_len example_config (ucast (PT_REGS_RC (example_call 5))) = 5"
  by (simp add: clamp_len_def example_config_def example_call_def word_sless_alt)

lemma filter_fold:
  "(target_pid cfg \<noteq> 0 \<and> target_pid cfg \<noteq> ucast (ucast (drop_bit 32 i :: u64) :: u32)) =
     filtered_out cfg (pid_of i)"
  by (simp add: filtered_out_def pid_of_def)

lemma le_word_replicate_zero: "(le_word (replicate n 0) :: 'a::len word) = 0"
  by (induction n) simp_all

lemma le_word_le_bytes_u64: "(le_word (le_bytes 8 (w::u64)) :: u64) = w"
  using le_word_le_bytes_aux [of 8 w] by (simp add: take_bit_word_eq_self)

lemma le_word_le_bytes_u32: "(le_word (le_bytes 4 (w::u32)) :: u32) = w"
  using le_word_le_bytes_aux [of 4 w] by (simp add: take_bit_word_eq_self)

lemma bpf_probe_read_user_struct:
  "bpf_probe_read_user m [] n a = (case mem_read m a n of Some bs \<Rightarrow> bs | None \<Rightarrow> replicate n 0)"
  by (simp add: bpf_probe_read_user_def bpf_probe_read_def)

lemma num_unreadable:
  "mem_read m a sizeof_BIO = None \<Longrightarrow> num (bpf_probe_read_user m [] sizeof_BIO a) = invalidFD"
  by (simp add: bpf_probe_read_user_struct num_def invalidFD_def sizeof_BIO_def le_word_replicate_zero)

lemma bio_unreadable:
  "mem_read m ssl sizeof_ssl_st = None \<Longrightarrow>
     wbio (bpf_probe_read_user m [] sizeof_ssl_st ssl) = 0 \<and>
     rbio (bpf_probe_read_user m [] sizeof_ssl_st ssl) = 0"
  by (simp add: bpf_probe_read_user_struct wbio_def rbio_def sizeof_ssl_st_def le_word_replicate_zero)

lemma transport_reads_fail_num:
  "transport_reads_fail m ssl (wbio (bpf_probe_read_user m [] sizeof_ssl_st ssl)) \<Longrightarrow>
     num (bpf_probe_read_user m [] sizeof_BIO (wbio (bpf_probe_read_user m [] sizeof_ssl_st ssl))) = invalidFD"
  "transport_reads_fail m ssl (rbio (bpf_probe_read_user m [] sizeof_ssl_st ssl)) \<Longrightarrow>
     num (bpf_probe_read_user m [] sizeof_BIO (rbio (bpf_probe_read_user m [] sizeof_ssl_st ssl))) = invalidFD"
  by (auto simp: transport_reads_fail_def bio_unreadable num_unreadable)

lemma probe_entry_SSL_write_stores:
  assumes "\<not> filtered_out cfg (pid_of (current_pid_tgid ctx))"
    and "has_room (active_ssl_write_args_map st) (current_pid_tgid ctx)"
  shows "bpf_map_lookup_elem (active_ssl_write_args_map (probe_entry_SSL_write cfg ctx st)) (current_pid_tgid ctx) =
     Some \<lparr>buf_fd = num (bpf_probe_read_user (mem ctx) [] sizeof_BIO
                       (wbio (bpf_probe_read_user (mem ctx) [] sizeof_ssl_st (PT_REGS_PARM1 ctx)))),
           buf = PT_REGS_PARM2 ctx\<rparr>"
  using assms
  by (simp add: probe_entry_SSL_write_def Let_def filter_fold has_room_def lookup_update_same)

lemma probe_entry_SSL_read_stores:
  assumes "\<not> filtered_out cfg (pid_of (current_pid_tgid ctx))"
    and "has_room (active_ssl_read_args_map st) (current_pid_tgid ctx)"
  shows "bpf_map_lookup_elem (active_ssl_read_args_map (probe_entry_SSL_read cfg ctx st)) (current_pid_tgid ctx) =
     Some \<lparr>buf_fd = num (bpf_probe_read_user (mem ctx) [] sizeof_BIO
                       (rbio (bpf_probe_read_user (mem ctx) [] sizeof_ssl_st (PT_REGS_PARM1 ctx)))),
           buf = PT_REGS_PARM2 ctx\<rparr>"
  using assms
  by (simp add: probe_entry_SSL_read_def Let_def filter_fold has_room_def lookup_update_same)

lemma probe_ret_SSL_write_record:
  assumes pass: "\<not> filtered_out cfg (pid_of (current_pid_tgid ctx))"
    and found: "bpf_map_lookup_elem (active_ssl_write_args_map st) (current_pid_tgid ctx) = Some c"
    and nn: "0 \<le> sint (ucast (PT_REGS_RC ctx) :: s32)"
  shows "\<exists>ev. tls_events (probe_ret_SSL_write cfg ctx st) = tls_events st @ [ev]
           \<and> fd ev = buf_fd c \<and> pid ev = pid_of (current_pid_tgid ctx)
           \<and> tid ev = ucast (current_pid_tgid ctx) \<and> type ev = kSSLWrite"
proof -
  from nn have nneg: "\<not> (ucast (PT_REGS_RC ctx) :: s32) <s 0" by (simp add: word_sless_alt)
  from process_SSL_data_event [OF nneg, of cfg st "current_pid_tgid ctx" kSSLWrite "buf c" "buf_fd c"]
  show ?thesis
    using pass by (auto simp: probe_ret_SSL_write_events found pid_of_def)
qed

lemma probe_ret_SSL_read_record:
  assumes pass: "\<not> filtered_out cfg (pid_of (current_pid_tgid ctx))"
    and found: "bpf_map_lookup_elem (active_ssl_read_args_map st) (current_pid_tgid ctx) = Some c"
    and nn: "0 \<le> sint (ucast (PT_REGS_RC ctx) :: s32)"
  shows "\<exists>ev. tls_events (probe_ret_SSL_read cfg ctx st) = tls_events st @ [ev]
           \<and> fd ev = buf_fd c \<and> pid ev = pid_of (current_pid_tgid ctx)
           \<and> tid ev = ucast (current_pid_tgid ctx) \<and> type ev = kSSLRead"
proof -
  from nn have nneg: "\<not> (ucast (PT_REGS_RC ctx) :: s32) <s 0" by (simp add: word_sless_alt)
  from process_SSL_data_event [OF nneg, of cfg st "current_pid_tgid ctx" kSSLRead "buf c" "buf_fd c"]
  show ?thesis
    using pass by (auto simp: probe_ret_SSL_read_events found pid_of_def)
qed

lemma example_pass: "\<not> filtered_out example_config p"
  by (simp add: filtered_out_def example_config_def)

lemma example_room:
  "has_room (active_ssl_write_args_map openssl_start) k"
  "has_room (active_ssl_read_args_map openssl_start) k"
  by (simp_all add: has_room_def openssl_start_def args_map_max_entries_def)

lemma example_reads_fail:
  "transport_reads_fail (mem (example_call rc)) a b"
  by (simp add: transport_reads_fail_def example_call_def mem_read_unmapped sizeof_BIO_def)

lemma example_memory_objects:
  "mem_read example_memory 0x1000 sizeof_ssl_st = Some example_ssl_st"
  "take 8 (drop 16 example_ssl_st) = le_bytes 8 (0x3000 :: u64)"
  "take 8 (drop 24 example_ssl_st) = le_bytes 8 (0x4000 :: u64)"
  "mem_read example_memory 0x3000 sizeof_BIO = Some (example_BIO 7)"
  "take 4 (drop 48 (example_BIO 7)) = le_bytes 4 (7 :: u32)"
  "mem_read example_memory 0x4000 sizeof_BIO = Some (example_BIO 9)"
  "take 4 (drop 48 (example_BIO 9)) = le_bytes 4 (9 :: u32)"
  by code_simp+

lemma probe_connect_cases:
  assumes "\<not> filtered_out cfg (pid_of (current_pid_tgid ctx))" and "PT_REGS_PARM2 ctx \<noteq> 0"
  shows "probe_connect cfg ctx st =
     (if uint (address_family (mem ctx) (PT_REGS_PARM2 ctx)) \<noteq> AF_INET cfg then st
      else st\<lparr>connect_events := connect_events st @
        [\<lparr>conn_timestamp_ns = ktime_ns ctx,
          conn_pid = pid_of (current_pid_tgid ctx),
          conn_tid = ucast (current_pid_tgid ctx),
          conn_fd = ucast (PT_REGS_PARM1 ctx),
          sa_data = bpf_probe_read (mem ctx) (replicate (SA_DATA_LEN cfg) 0) (SA_DATA_LEN cfg)
                      (PT_REGS_PARM2 ctx + offsetof_sa_data),
          conn_comm = bpf_get_current_comm ctx (TASK_COMM_LEN cfg)\<rparr>]\<rparr>)"
  using assms
  by (simp add: probe_connect_def Let_def filter_fold address_family_def) (simp add: pid_of_def)

lemma bpf_probe_read_whole:
  "mem_read m src n = Some bs \<Longrightarrow> bpf_probe_read m (replicate n 0) n src = bs"
  by (simp add: bpf_probe_read_def)

lemma example_connect_reads:
  "PT_REGS_PARM2 example_connect \<noteq> 0"
  "mem_read (mem example_connect) (PT_REGS_PARM2 example_connect) sizeof_sa_family_t = Some [2, 0]"
  "mem_read (mem example_connect) (PT_REGS_PARM2 example_connect + offsetof_sa_data)
     (SA_DATA_LEN example_config) = Some example_sa_data"
  "uint (address_family (mem example_connect) (PT_REGS_PARM2 example_connect)) = AF_INET example_config"
  "uint (address_family (mem (example_call 0)) (PT_REGS_PARM2 (example_call 0))) \<noteq> AF_INET example_config"
  "PT_REGS_PARM2 (example_call 0) \<noteq> 0"
  by code_simp+

lemma nspr_filter_fold:
  "(\<not> KERNEL_LESS_5_2 cfg \<and> target_pid cfg \<noteq> 0 \<and> target_pid cfg \<noteq> ucast (ucast (drop_bit 32 i :: u64) :: u32)) =
     nspr_filtered_out cfg (pid_of i)"
  by (simp add: nspr_filtered_out_def filtered_out_def pid_of_def)

lemma openssl_fire_filtered:
  "filtered_out cfg (pid_of (current_pid_tgid ctx)) \<Longrightarrow> openssl_fire cfg p ctx st = st"
  by (cases p)
    (simp_all add: probe_entry_SSL_write_def probe_ret_SSL_write_def probe_entry_SSL_read_def
      probe_ret_SSL_read_def probe_connect_def Let_def filter_fold)

lemma nspr_fire_filtered:
  "nspr_filtered_out cfg (pid_of (current_pid_tgid ctx)) \<Longrightarrow> nspr_fire cfg p ctx st = st"
  by (cases p)
    (simp_all add: nspr_probe_entry_SSL_write_def nspr_probe_ret_SSL_write_def
      nspr_probe_entry_SSL_read_def nspr_probe_ret_SSL_read_def Let_def nspr_filter_fold)

lemma probe_ret_SSL_write_removes:
  "\<not> filtered_out cfg (pid_of (current_pid_tgid ctx)) \<Longrightarrow>
     bpf_map_lookup_elem (active_ssl_write_args_map (probe_ret_SSL_write cfg ctx st)) (current_pid_tgid ctx) = None"
  by (simp add: probe_ret_SSL_write_def Let_def filter_fold lookup_delete_same)

lemma probe_ret_SSL_read_removes:
  "\<not> filtered_out cfg (pid_of (current_pid_tgid ctx)) \<Longrightarrow>
     bpf_map_lookup_elem (active_ssl_read_args_map (probe_ret_SSL_read cfg ctx st)) (current_pid_tgid ctx) = None"
  by (simp add: probe_ret_SSL_read_def Let_def filter_fold lookup_delete_same)

lemma nspr_probe_entry_SSL_write_stores:
  assumes "\<not> nspr_filtered_out cfg (pid_of (current_pid_tgid ctx))"
    and "has_room (nspr_active_ssl_write_args_map st) (current_pid_tgid ctx)"
  shows "bpf_map_lookup_elem (nspr_active_ssl_write_args_map (nspr_probe_entry_SSL_write cfg ctx st))
           (current_pid_tgid ctx) = Some (PT_REGS_PARM2 ctx)"
  using assms
  by (simp add: nspr_probe_entry_SSL_write_def Let_def nspr_filter_fold has_room_def lookup_update_same)

lemma nspr_probe_entry_SSL_read_stores:
  assumes "\<not> nspr_filtered_out cfg (pid_of (current_pid_tgid ctx))"
    and "has_room (nspr_active_ssl_read_args_map st) (current_pid_tgid ctx)"
  shows "bpf_map_lookup_elem (nspr_active_ssl_read_args_map (nspr_probe_entry_SSL_read cfg ctx st))
           (current_pid_tgid ctx) = Some (PT_REGS_PARM2 ctx)"
  using assms
  by (simp add: nspr_probe_entry_SSL_read_def Let_def nspr_filter_fold has_room_def lookup_update_same)

lemma nspr_probe_ret_SSL_write_removes:
  "\<not> nspr_filtered_out cfg (pid_of (current_pid_tgid ctx)) \<Longrightarrow>
     bpf_map_lookup_elem (nspr_active_ssl_write_args_map (nspr_probe_ret_SSL_write cfg ctx st))
       (current_pid_tgid ctx) = None"
  by (simp add: nspr_probe_ret_SSL_write_def Let_def nspr_filter_fold lookup_delete_same)

lemma nspr_probe_ret_SSL_read_removes:
  "\<not> nspr_filtered_out cfg (pid_of (current_pid_tgid ctx)) \<Longrightarrow>
     bpf_map_lookup_elem (nspr_active_ssl_read_args_map (nspr_probe_ret_SSL_read cfg ctx st))
       (current_pid_tgid ctx) = None"
  by (simp add: nspr_probe_ret_SSL_read_def Let_def nspr_filter_fold lookup_delete_same)

lemma example_nspr_room:
  "has_room (nspr_active_ssl_write_args_map nspr_start) k"
  "has_room (nspr_active_ssl_read_args_map nspr_start) k"
  by (simp_all add: has_room_def nspr_start_def args_map_max_entries_def)

lemma strict_config_rejects:
  "target_pid strict_config \<noteq> 0 \<and>
     target_pid strict_config \<noteq> ucast (pid_of (current_pid_tgid (example_call 0)))"
  "\<not> KERNEL_LESS_5_2 strict_config"
  by (simp_all add: strict_config_def example_config_def example_call_def pid_of_def)

lemma example_config_all: "target_pid example_config = 0"
  by (simp add: example_config_def)

lemma openssl_run_append:
  "openssl_run cfg (xs @ ys) st = openssl_run cfg ys (openssl_run cfg xs st)"
  by (induction xs arbitrary: st) auto

lemma update_new_key:
  "map_of m k = None \<Longrightarrow> AList.update k v m = m @ [(k, v)]"
  by (induction m) (auto split: if_splits)

lemma thread_key_inj:
  assumes "i < 2 ^ 64" and "j < 2 ^ 64"
  shows "((0x6400000000 :: u64) + of_nat i = 0x6400000000 + of_nat j) = (i = j)"
proof -
  have "i = j" if "(of_nat i :: u64) = of_nat j"
  proof -
    from that have "unat (of_nat i :: u64) = unat (of_nat j :: u64)" by simp
    then show ?thesis using assms by (simp add: unat_of_nat)
  qed
  then show ?thesis by auto
qed

lemma crowd_keys:
  "n \<le> 1024 \<Longrightarrow>
     map fst (active_ssl_write_args_map (openssl_run example_config (crowd n) openssl_start)) =
       map (\<lambda>i. 0x6400000000 + of_nat i) [0..<n]"
proof (induction n)
  case 0
  show ?case by (simp add: crowd_def openssl_start_def)
next
  case (Suc n)
  let ?s = "openssl_run example_config (crowd n) openssl_start"
  let ?k = "(0x6400000000 :: u64) + of_nat n"
  from Suc have keys: "map fst (active_ssl_write_args_map ?s) = map (\<lambda>i. 0x6400000000 + of_nat i) [0..<n]"
    by simp
  have small: "i < 2 ^ 64" if "i \<le> n" for i
  proof -
    have "(1024 :: nat) < 2 ^ 64" by simp
    with that Suc.prems show ?thesis by linarith
  qed
  have "?k \<noteq> 0x6400000000 + of_nat i" if "i < n" for i
    using thread_key_inj [of n i] small [of n] small [of i] that by simp
  then have "?k \<notin> set (map fst (active_ssl_write_args_map ?s))"
    unfolding keys by (simp add: image_iff)
  then have new: "map_of (active_ssl_write_args_map ?s) ?k = None"
    by (simp add: map_of_eq_None_iff)
  have "length (map fst (active_ssl_write_args_map ?s)) = n"
    unfolding keys by simp
  then have len: "length (active_ssl_write_args_map ?s) < args_map_max_entries"
    using Suc.prems by (simp add: args_map_max_entries_def)
  have run: "openssl_run example_config (crowd (Suc n)) openssl_start =
      probe_entry_SSL_write example_config (thread_call n) ?s"
    by (simp add: crowd_def openssl_run_append)
  have key: "current_pid_tgid (thread_call n) = ?k"
    by (simp add: thread_call_def)
  have "active_ssl_write_args_map (probe_entry_SSL_write example_config (thread_call n) ?s) =
      active_ssl_write_args_map ?s @
        [(?k, \<lparr>buf_fd = num (bpf_probe_read_user (mem (thread_call n)) [] sizeof_BIO
                     (wbio (bpf_probe_read_user (mem (thread_call n)) [] sizeof_ssl_st
                        (PT_REGS_PARM1 (thread_call n))))),
               buf = PT_REGS_PARM2 (thread_call n)\<rparr>)]"
    using new len
    by (simp add: probe_entry_SSL_write_def Let_def filter_fold example_pass key
        bpf_map_update_elem_def update_new_key)
  then show ?case by (simp add: run keys)
qed

lemma crowd_length:
  "length (active_ssl_write_args_map (openssl_run example_config (crowd 1024) openssl_start)) = 1024"
proof -
  let ?s = "openssl_run example_config (crowd 1024) openssl_start"
  have "map fst (active_ssl_write_args_map ?s) = map (\<lambda>i. 0x6400000000 + of_nat i) [0..<1024]"
    using crowd_keys [of 1024] by simp
  then have "length (map fst (active_ssl_write_args_map ?s)) = 1024"
    by simp
  then show ?thesis by simp
qed

lemma crowd_full:
  "\<not> has_room (active_ssl_write_args_map (openssl_run example_config (crowd 1024) openssl_start))
       (current_pid_tgid (thread_call 5000))"
proof -
  let ?s = "openssl_run example_config (crowd 1024) openssl_start"
  have keys: "map fst (active_ssl_write_args_map ?s) = map (\<lambda>i. 0x6400000000 + of_nat i) [0..<1024]"
    using crowd_keys [of 1024] by simp
  have key: "current_pid_tgid (thread_call 5000) = 0x6400000000 + of_nat 5000"
    by (simp add: thread_call_def)
  have "(0x6400000000 :: u64) + of_nat 5000 \<noteq> 0x6400000000 + of_nat i" if "i < 1024" for i
  proof -
    have "i < 2 ^ 64" using that by (rule less_trans) simp
    moreover have "(5000 :: nat) < 2 ^ 64" by simp
    ultimately show ?thesis using that thread_key_inj [of 5000 i] by simp
  qed
  then have "(0x6400000000 :: u64) + of_nat 5000 \<notin> set (map fst (active_ssl_write_args_map ?s))"
    unfolding keys by (simp add: image_iff)
  then have "map_of (active_ssl_write_args_map ?s) (0x6400000000 + of_nat 5000) = None"
    by (simp add: map_of_eq_None_iff)
  then show ?thesis
    unfolding key by (simp add: has_room_def crowd_length args_map_max_entries_def)
qed

lemma probe_entry_SSL_write_put:
  assumes "\<not> filtered_out cfg (pid_of (current_pid_tgid ctx))"
  shows "bpf_map_lookup_elem (active_ssl_write_args_map (probe_entry_SSL_write cfg ctx st)) (current_pid_tgid ctx) =
     (if has_room (active_ssl_write_args_map st) (current_pid_tgid ctx)
      then Some \<lparr>buf_fd = num (bpf_probe_read_user (mem ctx) [] sizeof_BIO
                       (wbio (bpf_probe_read_user (mem ctx) [] sizeof_ssl_st (PT_REGS_PARM1 ctx)))),
                 buf = PT_REGS_PARM2 ctx\<rparr>
      else None)"
proof (cases "has_room (active_ssl_write_args_map st) (current_pid_tgid ctx)")
  case True
  then show ?thesis by (simp add: probe_entry_SSL_write_stores [OF assms])
next
  case False
  then show ?thesis using assms
    by (simp add: probe_entry_SSL_write_def Let_def filter_fold has_room_def
        bpf_map_update_elem_def bpf_map_lookup_elem_def)
qed

lemma probe_entry_SSL_read_put:
  assumes "\<not> filtered_out cfg (pid_of (current_pid_tgid ctx))"
  shows "bpf_map_lookup_elem (active_ssl_read_args_map (probe_entry_SSL_read cfg ctx st)) (current_pid_tgid ctx) =
     (if has_room (active_ssl_read_args_map st) (current_pid_tgid ctx)
      then Some \<lparr>buf_fd = num (bpf_probe_read_user (mem ctx) [] sizeof_BIO
                       (rbio (bpf_probe_read_user (mem ctx) [] sizeof_ssl_st (PT_REGS_PARM1 ctx)))),
                 buf = PT_REGS_PARM2 ctx\<rparr>
      else None)"
proof (cases "has_room (active_ssl_read_args_map st) (current_pid_tgid ctx)")
  case True
  then show ?thesis by (simp add: probe_entry_SSL_read_stores [OF assms])
next
  case False
  then show ?thesis using assms
    by (simp add: probe_entry_SSL_read_def Let_def filter_fold has_room_def
        bpf_map_update_elem_def bpf_map_lookup_elem_def)
qed

lemma nspr_probe_entry_SSL_write_put:
  assumes "\<not> nspr_filtered_out cfg (pid_of (current_pid_tgid ctx))"
  shows "bpf_map_lookup_elem (nspr_active_ssl_write_args_map (nspr_probe_entry_SSL_write cfg ctx st))
           (current_pid_tgid ctx) =
     (if has_room (nspr_active_ssl_write_args_map st) (current_pid_tgid ctx)
      then Some (PT_REGS_PARM2 ctx) else None)"
proof (cases "has_room (nspr_active_ssl_write_args_map st) (current_pid_tgid ctx)")
  case True
  then show ?thesis by (simp add: nspr_probe_entry_SSL_write_stores [OF assms])
next
  case False
  then show ?thesis using assms
    by (simp add: nspr_probe_entry_SSL_write_def Let_def nspr_filter_fold has_room_def
        bpf_map_update_elem_def bpf_map_lookup_elem_def)
qed

lemma nspr_probe_entry_SSL_read_put:
  assumes "\<not> nspr_filtered_out cfg (pid_of (current_pid_tgid ctx))"
  shows "bpf_map_lookup_elem (nspr_active_ssl_read_args_map (nspr_probe_entry_SSL_read cfg ctx st))
           (current_pid_tgid ctx) =
     (if has_room (nspr_active_ssl_read_args_map st) (current_pid_tgid ctx)
      then Some (PT_REGS_PARM2 ctx) else None)"
proof (cases "has_room (nspr_active_ssl_read_args_map st) (current_pid_tgid ctx)")
  case True
  then show ?thesis by (simp add: nspr_probe_entry_SSL_read_stores [OF assms])
next
  case False
  then show ?thesis using assms
    by (simp add: nspr_probe_entry_SSL_read_def Let_def nspr_filter_fold has_room_def
        bpf_map_update_elem_def bpf_map_lookup_elem_def)
qed

lemma has_room_after_put:
  "bpf_map_lookup_elem m k = Some v \<Longrightarrow> has_room m k"
  by (simp add: has_room_def bpf_map_lookup_elem_def)

lemma probe_entry_SSL_write_twice:
  assumes pass: "\<not> filtered_out cfg (pid_of (current_pid_tgid ctx))"
    and same: "current_pid_tgid ctx2 = current_pid_tgid ctx"
    and room: "has_room (active_ssl_write_args_map st) (current_pid_tgid ctx)"
  shows "map_option buf (bpf_map_lookup_elem (active_ssl_write_args_map
           (probe_entry_SSL_write cfg ctx2 (probe_entry_SSL_write cfg ctx st))) (current_pid_tgid ctx)) =
         Some (PT_REGS_PARM2 ctx2)"
proof -
  from pass same have pass2: "\<not> filtered_out cfg (pid_of (current_pid_tgid ctx2))" by simp
  have "has_room (active_ssl_write_args_map (probe_entry_SSL_write cfg ctx st)) (current_pid_tgid ctx2)"
    unfolding same
    using probe_entry_SSL_write_stores [OF pass room] by (rule has_room_after_put)
  from probe_entry_SSL_write_stores [OF pass2 this] show ?thesis
    by (simp add: same)
qed

lemma nspr_probe_entry_SSL_write_twice:
  assumes pass: "\<not> nspr_filtered_out cfg (pid_of (current_pid_tgid ctx))"
    and same: "current_pid_tgid ctx2 = current_pid_tgid ctx"
    and room: "has_room (nspr_active_ssl_write_args_map st) (current_pid_tgid ctx)"
  shows "bpf_map_lookup_elem (nspr_active_ssl_write_args_map
           (nspr_probe_entry_SSL_write cfg ctx2 (nspr_probe_entry_SSL_write cfg ctx st))) (current_pid_tgid ctx) =
         Some (PT_REGS_PARM2 ctx2)"
proof -
  from pass same have pass2: "\<not> nspr_filtered_out cfg (pid_of (current_pid_tgid ctx2))" by simp
  have "has_room (nspr_active_ssl_write_args_map (nspr_probe_entry_SSL_write cfg ctx st)) (current_pid_tgid ctx2)"
    unfolding same
    using nspr_probe_entry_SSL_write_stores [OF pass room] by (rule has_room_after_put)
  from nspr_probe_entry_SSL_write_stores [OF pass2 this] show ?thesis
    by (simp add: same)
qed

lemma example_nspr_pass: "\<not> nspr_filtered_out example_config p"
  by (simp add: nspr_filtered_out_def example_pass)

lemma example_absent:
  "bpf_map_lookup_elem (active_ssl_write_args_map openssl_start) k = None"
  "bpf_map_lookup_elem (active_ssl_read_args_map openssl_start) k = None"
  "bpf_map_lookup_elem (nspr_active_ssl_write_args_map nspr_start) k = None"
  "bpf_map_lookup_elem (nspr_active_ssl_read_args_map nspr_start) k = None"
  by (simp_all add: openssl_start_def nspr_start_def bpf_map_lookup_elem_def)

lemma openssl_fire_other:
  assumes "current_pid_tgid c \<noteq> k"
  shows "bpf_map_lookup_elem (active_ssl_write_args_map (openssl_fire cfg p c st)) k =
           bpf_map_lookup_elem (active_ssl_write_args_map st) k"
    and "bpf_map_lookup_elem (active_ssl_read_args_map (openssl_fire cfg p c st)) k =
           bpf_map_lookup_elem (active_ssl_read_args_map st) k"
  using assms
  by (cases p;
      simp add: probe_entry_SSL_write_def probe_ret_SSL_write_def probe_entry_SSL_read_def
        probe_ret_SSL_read_def probe_connect_def Let_def lookup_update_other lookup_delete_other
        process_SSL_data_maps split: option.split)+

lemma openssl_run_other:
  assumes "\<forall>e \<in> set evs. current_pid_tgid (snd e) \<noteq> k"
  shows "bpf_map_lookup_elem (active_ssl_write_args_map (openssl_run cfg evs st)) k =
           bpf_map_lookup_elem (active_ssl_write_args_map st) k
       \<and> bpf_map_lookup_elem (active_ssl_read_args_map (openssl_run cfg evs st)) k =
           bpf_map_lookup_elem (active_ssl_read_args_map st) k"
  using assms
proof (induction evs arbitrary: st)
  case Nil
  show ?case by simp
next
  case (Cons e evs)
  obtain p c where e: "e = (p, c)" by (cases e)
  from Cons.prems e have c: "current_pid_tgid c \<noteq> k" by simp
  from Cons.prems have rest: "\<forall>e \<in> set evs. current_pid_tgid (snd e) \<noteq> k" by simp
  show ?case
    using Cons.IH [OF rest, of "openssl_fire cfg p c st"]
    by (simp add: e openssl_fire_other [OF c])
qed

lemma nspr_fire_other:
  assumes "current_pid_tgid c \<noteq> k"
  shows "bpf_map_lookup_elem (nspr_active_ssl_write_args_map (nspr_fire cfg p c st)) k =
           bpf_map_lookup_elem (nspr_active_ssl_write_args_map st) k"
    and "bpf_map_lookup_elem (nspr_active_ssl_read_args_map (nspr_fire cfg p c st)) k =
           bpf_map_lookup_elem (nspr_active_ssl_read_args_map st) k"
  using assms
  by (cases p;
      simp add: nspr_probe_entry_SSL_write_def nspr_probe_ret_SSL_write_def nspr_probe_entry_SSL_read_def
        nspr_probe_ret_SSL_read_def Let_def lookup_update_other lookup_delete_other
        nspr_process_SSL_data_maps split: option.split)+

lemma nspr_run_other:
  assumes "\<forall>e \<in> set evs. current_pid_tgid (snd e) \<noteq> k"
  shows "bpf_map_lookup_elem (nspr_active_ssl_write_args_map (nspr_run cfg evs st)) k =
           bpf_map_lookup_elem (nspr_active_ssl_write_args_map st) k
       \<and> bpf_map_lookup_elem (nspr_active_ssl_read_args_map (nspr_run cfg evs st)) k =
           bpf_map_lookup_elem (nspr_active_ssl_read_args_map st) k"
  using assms
proof (induction evs arbitrary: st)
  case Nil
  show ?case by simp
next
  case (Cons e evs)
  obtain p c where e: "e = (p, c)" by (cases e)
  from Cons.prems e have c: "current_pid_tgid c \<noteq> k" by simp
  from Cons.prems have rest: "\<forall>e \<in> set evs. current_pid_tgid (snd e) \<noteq> k" by simp
  show ?case
    using Cons.IH [OF rest, of "nspr_fire cfg p c st"]
    by (simp add: e nspr_fire_other [OF c])
qed

lemma key_determined:
  assumes "pid_of k = pid_of k'" and "(ucast k :: u32) = ucast (k' :: u64)"
  shows "k = k'"
proof (rule bit_word_eqI)
  fix n assume n: "n < LENGTH(64)"
  show "bit k n = bit k' n"
  proof (cases "n < 32")
    case True
    have "bit (ucast k :: u32) n = bit (ucast k' :: u32) n" using assms(2) by simp
    then show ?thesis using True by (simp add: bit_simps)
  next
    case False
    then obtain m where m: "n = 32 + m" using le_Suc_ex [of 32 n] by auto
    with n have m32: "m < 32" by simp
    have "bit (pid_of k) m = bit (pid_of k') m" using assms(1) by simp
    then show ?thesis using m32 by (simp add: pid_of_def bit_simps m)
  qed
qed

lemma probe_ret_SSL_write_attribution:
  "(case bpf_map_lookup_elem (active_ssl_write_args_map st) (current_pid_tgid ctx) of
            None \<Rightarrow> tls_events (probe_ret_SSL_write cfg ctx st) = tls_events st
          | Some c \<Rightarrow>
              if 0 \<le> sint (ucast (PT_REGS_RC ctx) :: s32) \<and> \<not> filtered_out cfg (pid_of (current_pid_tgid ctx))
              then tls_events (probe_ret_SSL_write cfg ctx st) = tls_events st @ [last (tls_events (probe_ret_SSL_write cfg ctx st))]
              \<and> attributed_to (last (tls_events (probe_ret_SSL_write cfg ctx st))) (current_pid_tgid ctx)
              \<and> fd (last (tls_events (probe_ret_SSL_write cfg ctx st))) = buf_fd c
              \<and> data (last (tls_events (probe_ret_SSL_write cfg ctx st))) =
                  bpf_probe_read (mem ctx) (data (data_buffer_heap st (cpu ctx)))
                    (unat (data_len (last (tls_events (probe_ret_SSL_write cfg ctx st))))) (buf c)
              else tls_events (probe_ret_SSL_write cfg ctx st) = tls_events st)"
proof (cases "bpf_map_lookup_elem (active_ssl_write_args_map st) (current_pid_tgid ctx)")
  case None
  then show ?thesis by (simp add: probe_ret_SSL_write_events)
next
  case (Some c)
  show ?thesis
  proof (cases "0 \<le> sint (ucast (PT_REGS_RC ctx) :: s32) \<and> \<not> filtered_out cfg (pid_of (current_pid_tgid ctx))")
    case True
    then have nneg: "\<not> (ucast (PT_REGS_RC ctx) :: s32) <s 0" by (simp add: word_sless_alt)
    from process_SSL_data_event [OF nneg, of cfg st "current_pid_tgid ctx" kSSLWrite "buf c" "buf_fd c"]
    show ?thesis using True Some
      by (auto simp: probe_ret_SSL_write_events attributed_to_def pid_of_def)
  next
    case False
    then have "(ucast (PT_REGS_RC ctx) :: s32) <s 0 \<or> filtered_out cfg (pid_of (current_pid_tgid ctx))"
      by (auto simp: word_sless_alt)
    then show ?thesis using False Some
      by (auto simp: probe_ret_SSL_write_events process_SSL_data_neg)
  qed
qed

lemma probe_ret_SSL_read_attribution:
  "(case bpf_map_lookup_elem (active_ssl_read_args_map st) (current_pid_tgid ctx) of
            None \<Rightarrow> tls_events (probe_ret_SSL_read cfg ctx st) = tls_events st
          | Some c \<Rightarrow>
              if 0 \<le> sint (ucast (PT_REGS_RC ctx) :: s32) \<and> \<not> filtered_out cfg (pid_of (current_pid_tgid ctx))
              then tls_events (probe_ret_SSL_read cfg ctx st) = tls_events st @ [last (tls_events (probe_ret_SSL_read cfg ctx st))]
              \<and> attributed_to (last (tls_events (probe_ret_SSL_read cfg ctx st))) (current_pid_tgid ctx)
              \<and> fd (last (tls_events (probe_ret_SSL_read cfg ctx st))) = buf_fd c
              \<and> data (last (tls_events (probe_ret_SSL_read cfg ctx st))) =
                  bpf_probe_read (mem ctx) (data (data_buffer_heap st (cpu ctx)))
                    (unat (data_len (last (tls_events (probe_ret_SSL_read cfg ctx st))))) (buf c)
              else tls_events (probe_ret_SSL_read cfg ctx st) = tls_events st)"
proof (cases "bpf_map_lookup_elem (active_ssl_read_args_map st) (current_pid_tgid ctx)")
  case None
  then show ?thesis by (simp add: probe_ret_SSL_read_events)
next
  case (Some c)
  show ?thesis
  proof (cases "0 \<le> sint (ucast (PT_REGS_RC ctx) :: s32) \<and> \<not> filtered_out cfg (pid_of (current_pid_tgid ctx))")
    case True
    then have nneg: "\<not> (ucast (PT_REGS_RC ctx) :: s32) <s 0" by (simp add: word_sless_alt)
    from process_SSL_data_event [OF nneg, of cfg st "current_pid_tgid ctx" kSSLRead "buf c" "buf_fd c"]
    show ?thesis using True Some
      by (auto simp: probe_ret_SSL_read_events attributed_to_def pid_of_def)
  next
    case False
    then have "(ucast (PT_REGS_RC ctx) :: s32) <s 0 \<or> filtered_out cfg (pid_of (current_pid_tgid ctx))"
      by (auto simp: word_sless_alt)
    then show ?thesis using False Some
      by (auto simp: probe_ret_SSL_read_events process_SSL_data_neg)
  qed
qed

lemma nspr_probe_ret_SSL_write_attribution:
  "(case bpf_map_lookup_elem (nspr_active_ssl_write_args_map st) (current_pid_tgid ctx) of
            None \<Rightarrow> nspr_events (nspr_probe_ret_SSL_write cfg ctx st) = nspr_events st
          | Some c \<Rightarrow>
              if 0 \<le> sint (ucast (PT_REGS_RC ctx) :: s32) \<and> \<not> nspr_filtered_out cfg (pid_of (current_pid_tgid ctx))
              then nspr_events (nspr_probe_ret_SSL_write cfg ctx st) = nspr_events st @ [last (nspr_events (nspr_probe_ret_SSL_write cfg ctx st))]
              \<and> attributed_to (last (nspr_events (nspr_probe_ret_SSL_write cfg ctx st))) (current_pid_tgid ctx)
              \<and> data (last (nspr_events (nspr_probe_ret_SSL_write cfg ctx st))) =
                  bpf_probe_read (mem ctx) (data (nspr_data_buffer_heap st (cpu ctx)))
                    (unat (data_len (last (nspr_events (nspr_probe_ret_SSL_write cfg ctx st))))) c
              else nspr_events (nspr_probe_ret_SSL_write cfg ctx st) = nspr_events st)"
proof (cases "bpf_map_lookup_elem (nspr_active_ssl_write_args_map st) (current_pid_tgid ctx)")
  case None
  then show ?thesis by (simp add: nspr_probe_ret_SSL_write_events)
next
  case (Some c)
  show ?thesis
  proof (cases "0 \<le> sint (ucast (PT_REGS_RC ctx) :: s32) \<and> \<not> nspr_filtered_out cfg (pid_of (current_pid_tgid ctx))")
    case True
    then have nneg: "\<not> (ucast (PT_REGS_RC ctx) :: s32) <s 0" by (simp add: word_sless_alt)
    from nspr_process_SSL_data_event [OF nneg, of cfg st "current_pid_tgid ctx" kSSLWrite c]
    show ?thesis using True Some
      by (auto simp: nspr_probe_ret_SSL_write_events attributed_to_def pid_of_def)
  next
    case False
    then have "(ucast (PT_REGS_RC ctx) :: s32) <s 0 \<or> nspr_filtered_out cfg (pid_of (current_pid_tgid ctx))"
      by (auto simp: word_sless_alt)
    then show ?thesis using False Some
      by (auto simp: nspr_probe_ret_SSL_write_events nspr_process_SSL_data_neg)
  qed
qed

lemma nspr_probe_ret_SSL_read_attribution:
  "(case bpf_map_lookup_elem (nspr_active_ssl_read_args_map st) (current_pid_tgid ctx) of
            None \<Rightarrow> nspr_events (nspr_probe_ret_SSL_read cfg ctx st) = nspr_events st
          | Some c \<Rightarrow>
              if 0 \<le> sint (ucast (PT_REGS_RC ctx) :: s32) \<and> \<not> nspr_filtered_out cfg (pid_of (current_pid_tgid ctx))
              then nspr_events (nspr_probe_ret_SSL_read cfg ctx st) = nspr_events st @ [last (nspr_events (nspr_probe_ret_SSL_read cfg ctx st))]
              \<and> attributed_to (last (nspr_events (nspr_probe_ret_SSL_read cfg ctx st))) (current_pid_tgid ctx)
              \<and> data (last (nspr_events (nspr_probe_ret_SSL_read cfg ctx st))) =
                  bpf_probe_read (mem ctx) (data (nspr_data_buffer_heap st (cpu ctx)))
                    (unat (data_len (last (nspr_events (nspr_probe_ret_SSL_read cfg ctx st))))) c
              else nspr_events (nspr_probe_ret_SSL_read cfg ctx st) = nspr_events st)"
proof (cases "bpf_map_lookup_elem (nspr_active_ssl_read_args_map st) (current_pid_tgid ctx)")
  case None
  then show ?thesis by (simp add: nspr_probe_ret_SSL_read_events)
next
  case (Some c)
  show ?thesis
  proof (cases "0 \<le> sint (ucast (PT_REGS_RC ctx) :: s32) \<and> \<not> nspr_filtered_out cfg (pid_of (current_pid_tgid ctx))")
    case True
    then have nneg: "\<not> (ucast (PT_REGS_RC ctx) :: s32) <s 0" by (simp add: word_sless_alt)
    from nspr_process_SSL_data_event [OF nneg, of cfg st "current_pid_tgid ctx" kSSLRead c]
    show ?thesis using True Some
      by (auto simp: nspr_probe_ret_SSL_read_events attributed_to_def pid_of_def)
  next
    case False
    then have "(ucast (PT_REGS_RC ctx) :: s32) <s 0 \<or> nspr_filtered_out cfg (pid_of (current_pid_tgid ctx))"
      by (auto simp: word_sless_alt)
    then show ?thesis using False Some
      by (auto simp: nspr_probe_ret_SSL_read_events nspr_process_SSL_data_neg)
  qed
qed

lemma example_session_contexts:
  "bpf_map_lookup_elem (active_ssl_write_args_map (openssl_run example_config example_session openssl_start))
      (current_pid_tgid (example_call rc)) = Some \<lparr>buf_fd = 0, buf = 0x2000\<rparr>"
  "bpf_map_lookup_elem (active_ssl_read_args_map (openssl_run example_config example_session openssl_start))
      (current_pid_tgid (example_call rc)) = Some \<lparr>buf_fd = 0, buf = 0x2000\<rparr>"
  "bpf_map_lookup_elem (nspr_active_ssl_write_args_map (nspr_run example_config example_session nspr_start))
      (current_pid_tgid (example_call rc)) = Some 0x2000"
  "bpf_map_lookup_elem (nspr_active_ssl_read_args_map (nspr_run example_config example_session nspr_start))
      (current_pid_tgid (example_call rc)) = Some 0x2000"
  by (simp_all add: example_session_def example_config_def example_call_def openssl_start_def nspr_start_def
      probe_entry_SSL_write_def probe_entry_SSL_read_def nspr_probe_entry_SSL_write_def
      nspr_probe_entry_SSL_read_def bpf_map_update_elem_def bpf_map_lookup_elem_def
      args_map_max_entries_def Let_def bpf_probe_read_user_struct mem_read_unmapped
      sizeof_ssl_st_def sizeof_BIO_def num_def wbio_def rbio_def le_word_replicate_zero)

lemma example_others_keys:
  "\<forall>e \<in> set example_others. current_pid_tgid (snd e) \<noteq> current_pid_tgid (example_call rc)"
  by (simp add: example_others_def thread_call_def example_call_def)

section \<open>The claims\<close>

text \<open>
  C1. In a session that starts with empty stores, a return probe that finds a context
  under the caller's key and sees a non-negative return value appends exactly one record,
  and the record's \<open>data_len\<close> is the minimum of the return value and
  \<open>MAX_DATA_SIZE_OPENSSL\<close>; the conditional expression of \<open>process_SSL_data\<close> is that
  minimum. This holds for the read and the write probes of both programs, for a
  \<open>MAX_DATA_SIZE_OPENSSL\<close> that is a power of two (the mask \<open>MAX_DATA_SIZE_OPENSSL - 1\<close>
  is all ones only then).
\<close>

theorem capture_length_is_min:
  assumes "MAX_DATA_SIZE_OPENSSL cfg = 2 ^ k" and "k < 31"
    and "0 \<le> sint (ucast (PT_REGS_RC ctx) :: s32)"
    and "active_ssl_read_args_map st0 = []" and "active_ssl_write_args_map st0 = []"
    and "st = openssl_run cfg evs st0"
    and "nspr_active_ssl_read_args_map nst0 = []" and "nspr_active_ssl_write_args_map nst0 = []"
    and "nst = nspr_run cfg nevs nst0"
  shows "sint (clamp_len cfg (ucast (PT_REGS_RC ctx))) =
           min (sint (ucast (PT_REGS_RC ctx) :: s32)) (sint (MAX_DATA_SIZE_OPENSSL cfg))
       \<and> (bpf_map_lookup_elem (active_ssl_write_args_map st) (current_pid_tgid ctx) \<noteq> None \<longrightarrow>
            emits_one_of_length (tls_events st) (tls_events (probe_ret_SSL_write cfg ctx st))
              (min (sint (ucast (PT_REGS_RC ctx) :: s32)) (sint (MAX_DATA_SIZE_OPENSSL cfg))))
       \<and> (bpf_map_lookup_elem (active_ssl_read_args_map st) (current_pid_tgid ctx) \<noteq> None \<longrightarrow>
            emits_one_of_length (tls_events st) (tls_events (probe_ret_SSL_read cfg ctx st))
              (min (sint (ucast (PT_REGS_RC ctx) :: s32)) (sint (MAX_DATA_SIZE_OPENSSL cfg))))
       \<and> (bpf_map_lookup_elem (nspr_active_ssl_write_args_map nst) (current_pid_tgid ctx) \<noteq> None \<longrightarrow>
            emits_one_of_length (nspr_events nst) (nspr_events (nspr_probe_ret_SSL_write cfg ctx nst))
              (min (sint (ucast (PT_REGS_RC ctx) :: s32)) (sint (MAX_DATA_SIZE_OPENSSL cfg))))
       \<and> (bpf_map_lookup_elem (nspr_active_ssl_read_args_map nst) (current_pid_tgid ctx) \<noteq> None \<longrightarrow>
            emits_one_of_length (nspr_events nst) (nspr_events (nspr_probe_ret_SSL_read cfg ctx nst))
              (min (sint (ucast (PT_REGS_RC ctx) :: s32)) (sint (MAX_DATA_SIZE_OPENSSL cfg))))"
proof -
  have inv: "openssl_inv cfg st"
    using assms(4-6) by (simp add: openssl_run_inv openssl_inv_empty)
  have ninv: "nspr_inv cfg nst"
    using assms(7-9) by (simp add: nspr_run_inv nspr_inv_empty)
  show ?thesis
    using sint_clamp_len [OF assms(1-3)]
      openssl_write_one [OF assms(1-3) inv] openssl_read_one [OF assms(1-3) inv]
      nspr_write_one [OF assms(1-3) ninv] nspr_read_one [OF assms(1-3) ninv]
    by blast
qed

theorem capture_length_is_min_witness:
  "MAX_DATA_SIZE_OPENSSL example_config = 2 ^ 12 \<and> (12::nat) < 31
   \<and> 0 \<le> sint (ucast (PT_REGS_RC (example_call 5)) :: s32)
   \<and> 0 \<le> sint (ucast (PT_REGS_RC (example_call 5000)) :: s32)
   \<and> active_ssl_read_args_map openssl_start = [] \<and> active_ssl_write_args_map openssl_start = []
   \<and> nspr_active_ssl_read_args_map nspr_start = [] \<and> nspr_active_ssl_write_args_map nspr_start = []
   \<and> bpf_map_lookup_elem (active_ssl_write_args_map (openssl_run example_config example_session openssl_start))
        (current_pid_tgid (example_call 5)) \<noteq> None
   \<and> bpf_map_lookup_elem (active_ssl_read_args_map (openssl_run example_config example_session openssl_start))
        (current_pid_tgid (example_call 5)) \<noteq> None
   \<and> bpf_map_lookup_elem (nspr_active_ssl_write_args_map (nspr_run example_config example_session nspr_start))
        (current_pid_tgid (example_call 5)) \<noteq> None
   \<and> bpf_map_lookup_elem (nspr_active_ssl_read_args_map (nspr_run example_config example_session nspr_start))
        (current_pid_tgid (example_call 5)) \<noteq> None
   \<and> sint (clamp_len example_config (ucast (PT_REGS_RC (example_call 5)))) = 5
   \<and> sint (clamp_len example_config (ucast (PT_REGS_RC (example_call 5000)))) = 4096
   \<and> emits_one_of_length (tls_events (openssl_run example_config example_session openssl_start))
        (tls_events (probe_ret_SSL_write example_config (example_call 5)
           (openssl_run example_config example_session openssl_start))) 5
   \<and> emits_one_of_length (tls_events (openssl_run example_config example_session openssl_start))
        (tls_events (probe_ret_SSL_write example_config (example_call 5000)
           (openssl_run example_config example_session openssl_start))) 4096
   \<and> emits_one_of_length (tls_events (openssl_run example_config example_session openssl_start))
        (tls_events (probe_ret_SSL_read example_config (example_call 5)
           (openssl_run example_config example_session openssl_start))) 5
   \<and> emits_one_of_length (nspr_events (nspr_run example_config example_session nspr_start))
        (nspr_events (nspr_probe_ret_SSL_write example_config (example_call 5)
           (nspr_run example_config example_session nspr_start))) 5
   \<and> emits_one_of_length (nspr_events (nspr_run example_config example_session nspr_start))
        (nspr_events (nspr_probe_ret_SSL_read example_config (example_call 5)
           (nspr_run example_config example_session nspr_start))) 5"
proof -
  have nn: "0 \<le> sint (ucast (PT_REGS_RC (example_call 5)) :: s32)"
    by (simp add: example_rc)
  have nn': "0 \<le> sint (ucast (PT_REGS_RC (example_call 5000)) :: s32)"
    by (simp add: example_rc)
  have k: "(12::nat) < 31" by simp
  note short = capture_length_is_min [OF example_rc(2) k nn example_start_empty(1,2) refl
      example_start_empty(3,4) refl, of example_session example_session]
  note long = capture_length_is_min [OF example_rc(2) k nn' example_start_empty(1,2) refl
      example_start_empty(3,4) refl, of example_session example_session]
  show ?thesis
    using short long example_session_entries [of 5] example_session_entries [of 5000] nn nn'
    by (simp only: example_rc example_start_empty) simp
qed



text \<open>
  C3, as stated, fails: thread 101 calls \<open>SSL_write\<close>, the call returns 5, and the buffer
  is unreadable when the return probe runs; the record that is emitted has \<open>data_len\<close> 5.
\<close>

theorem failed_copy_zero_length_counterexample:
  "mem_read (mem (example_call 5)) (PT_REGS_PARM2 (example_call 0)) 5 = None
   \<and> map data_len (tls_events (probe_ret_SSL_write example_config (example_call 5)
         (openssl_run example_config example_session openssl_start))) = [5]"
  by (simp add: example_session_def example_config_def example_call_def openssl_start_def
      probe_entry_SSL_write_def probe_entry_SSL_read_def probe_ret_SSL_write_def
      process_SSL_data_def create_ssl_data_event_def bpf_percpu_array_lookup_def
      bpf_map_update_elem_def bpf_map_lookup_elem_def bpf_map_delete_elem_def
      args_map_max_entries_def Let_def mem_read_unmapped word_sless_alt)

text \<open>
  C3, amended. Neither program looks at the result of \<open>bpf_probe_read\<close>. When the copy of
  the payload fails, \<open>process_SSL_data\<close> still emits one record; its \<open>data_len\<close> is the
  clamped return value, as after a copy that succeeds, and it is not zero (a copy of no
  bytes cannot fail); the first \<open>data_len\<close> bytes of its payload are the zeros the helper
  leaves behind.
\<close>

theorem failed_copy_keeps_length:
  assumes "0 \<le> sint (ucast (PT_REGS_RC ctx) :: s32)"
    and "mem_read (mem ctx) b (unat (clamp_len cfg (ucast (PT_REGS_RC ctx)))) = None"
  shows "tls_events (process_SSL_data cfg ctx st i ty b f) =
           tls_events st @ [last (tls_events (process_SSL_data cfg ctx st i ty b f))]
       \<and> data_len (last (tls_events (process_SSL_data cfg ctx st i ty b f))) =
           clamp_len cfg (ucast (PT_REGS_RC ctx))
       \<and> data_len (last (tls_events (process_SSL_data cfg ctx st i ty b f))) \<noteq> 0
       \<and> take (unat (clamp_len cfg (ucast (PT_REGS_RC ctx))))
            (data (last (tls_events (process_SSL_data cfg ctx st i ty b f)))) =
           replicate (unat (clamp_len cfg (ucast (PT_REGS_RC ctx)))) 0
       \<and> nspr_events (nspr_process_SSL_data cfg ctx nst i ty b) =
           nspr_events nst @ [last (nspr_events (nspr_process_SSL_data cfg ctx nst i ty b))]
       \<and> data_len (last (nspr_events (nspr_process_SSL_data cfg ctx nst i ty b))) =
           clamp_len cfg (ucast (PT_REGS_RC ctx))
       \<and> data_len (last (nspr_events (nspr_process_SSL_data cfg ctx nst i ty b))) \<noteq> 0
       \<and> take (unat (clamp_len cfg (ucast (PT_REGS_RC ctx))))
            (data (last (nspr_events (nspr_process_SSL_data cfg ctx nst i ty b)))) =
           replicate (unat (clamp_len cfg (ucast (PT_REGS_RC ctx)))) 0"
proof -
  from assms(1) have nneg: "\<not> (ucast (PT_REGS_RC ctx) :: s32) <s 0" by (simp add: word_sless_alt)
  from assms(2) have pos: "0 < unat (clamp_len cfg (ucast (PT_REGS_RC ctx)))"
    by (rule mem_read_fail_pos)
  then have nz: "clamp_len cfg (ucast (PT_REGS_RC ctx)) \<noteq> 0"
    by (auto simp: unat_gt_0)
  from process_SSL_data_event [OF nneg, of cfg st i ty b f]
  obtain ev where ev: "tls_events (process_SSL_data cfg ctx st i ty b f) = tls_events st @ [ev]"
      "data_len ev = clamp_len cfg (ucast (PT_REGS_RC ctx))"
      "data ev = bpf_probe_read (mem ctx) (data (data_buffer_heap st (cpu ctx)))
                   (unat (clamp_len cfg (ucast (PT_REGS_RC ctx)))) b"
    by blast
  from nspr_process_SSL_data_event [OF nneg, of cfg nst i ty b]
  obtain nev where nev: "nspr_events (nspr_process_SSL_data cfg ctx nst i ty b) = nspr_events nst @ [nev]"
      "data_len nev = clamp_len cfg (ucast (PT_REGS_RC ctx))"
      "data nev = bpf_probe_read (mem ctx) (data (nspr_data_buffer_heap nst (cpu ctx)))
                   (unat (clamp_len cfg (ucast (PT_REGS_RC ctx)))) b"
    by blast
  show ?thesis
    by (simp add: ev nev nz bpf_probe_read_fail [OF assms(2)])
qed

theorem failed_copy_keeps_length_witness:
  "0 \<le> sint (ucast (PT_REGS_RC (example_call 5)) :: s32)
   \<and> mem_read (mem (example_call 5)) 0x2000 (unat (clamp_len example_config (ucast (PT_REGS_RC (example_call 5))))) = None
   \<and> data_len (last (tls_events (process_SSL_data example_config (example_call 5) openssl_start
         0x6400000065 kSSLWrite 0x2000 3))) = 5
   \<and> take 5 (data (last (tls_events (process_SSL_data example_config (example_call 5) openssl_start
         0x6400000065 kSSLWrite 0x2000 3)))) = [0, 0, 0, 0, 0]
   \<and> data_len (last (nspr_events (nspr_process_SSL_data example_config (example_call 5) nspr_start
         0x6400000065 kSSLWrite 0x2000))) = 5"
proof -
  have nn: "0 \<le> sint (ucast (PT_REGS_RC (example_call 5)) :: s32)"
    by (simp add: example_rc)
  have fail: "mem_read (mem (example_call 5)) 0x2000
      (unat (clamp_len example_config (ucast (PT_REGS_RC (example_call 5))))) = None"
    by (simp add: example_clamp) (simp add: example_call_def mem_read_unmapped)
  have five: "replicate 5 (0::u8) = [0, 0, 0, 0, 0]"
    by (simp add: numeral_eq_Suc)
  show ?thesis
    using failed_copy_keeps_length [OF nn fail, of openssl_start "0x6400000065" kSSLWrite 3 nspr_start]
      nn fail
    by (simp add: example_clamp five)
qed

text \<open>
  C4, as stated, fails in a process that has mapped address zero: the read of the
  connection object fails, its cleared copy gives a null transport address, the read
  there succeeds, and the descriptor stored and emitted is the 9 found at offset 48, not
  \<open>invalidFD\<close>.
\<close>

theorem unknown_descriptor_counterexample:
  "mem_read (mem (null_page_call 0)) (PT_REGS_PARM1 (null_page_call 0)) sizeof_ssl_st = None
   \<and> bpf_map_lookup_elem
        (active_ssl_write_args_map (probe_entry_SSL_write example_config (null_page_call 0) openssl_start))
        (current_pid_tgid (null_page_call 0)) = Some \<lparr>buf_fd = 9, buf = 0x2000\<rparr>
   \<and> map fd (tls_events (probe_ret_SSL_write example_config (null_page_call 5)
        (probe_entry_SSL_write example_config (null_page_call 0) openssl_start))) = [9]"
  by code_simp

text \<open>
  C4, amended. An OpenSSL entry probe whose read of the transport sub-object fails runs
  to its end and stores the descriptor \<open>invalidFD\<close> (zero) with the buffer address, and
  the record that the matching return probe then emits carries \<open>invalidFD\<close> too. A failed
  read of the connection object leaves a null transport address, so the same holds for
  it when address zero is unreadable. The probes never test the outcome of a read: the
  sentinel is what the cleared destination of the failed transport read decodes to.
\<close>

theorem unknown_descriptor_when_reads_fail:
  assumes "\<not> filtered_out cfg (pid_of (current_pid_tgid ctx))"
    and "current_pid_tgid rctx = current_pid_tgid ctx"
    and "0 \<le> sint (ucast (PT_REGS_RC rctx) :: s32)"
  shows "(transport_reads_fail (mem ctx) (PT_REGS_PARM1 ctx)
            (wbio (bpf_probe_read_user (mem ctx) [] sizeof_ssl_st (PT_REGS_PARM1 ctx)))
          \<and> has_room (active_ssl_write_args_map st) (current_pid_tgid ctx) \<longrightarrow>
            bpf_map_lookup_elem (active_ssl_write_args_map (probe_entry_SSL_write cfg ctx st))
                (current_pid_tgid ctx) = Some \<lparr>buf_fd = invalidFD, buf = PT_REGS_PARM2 ctx\<rparr>
            \<and> tls_events (probe_ret_SSL_write cfg rctx (probe_entry_SSL_write cfg ctx st)) =
                tls_events st @ [last (tls_events (probe_ret_SSL_write cfg rctx (probe_entry_SSL_write cfg ctx st)))]
            \<and> fd (last (tls_events (probe_ret_SSL_write cfg rctx (probe_entry_SSL_write cfg ctx st)))) = invalidFD)
       \<and> (transport_reads_fail (mem ctx) (PT_REGS_PARM1 ctx)
            (rbio (bpf_probe_read_user (mem ctx) [] sizeof_ssl_st (PT_REGS_PARM1 ctx)))
          \<and> has_room (active_ssl_read_args_map st) (current_pid_tgid ctx) \<longrightarrow>
            bpf_map_lookup_elem (active_ssl_read_args_map (probe_entry_SSL_read cfg ctx st))
                (current_pid_tgid ctx) = Some \<lparr>buf_fd = invalidFD, buf = PT_REGS_PARM2 ctx\<rparr>
            \<and> tls_events (probe_ret_SSL_read cfg rctx (probe_entry_SSL_read cfg ctx st)) =
                tls_events st @ [last (tls_events (probe_ret_SSL_read cfg rctx (probe_entry_SSL_read cfg ctx st)))]
            \<and> fd (last (tls_events (probe_ret_SSL_read cfg rctx (probe_entry_SSL_read cfg ctx st)))) = invalidFD)"
proof (intro conjI impI)
  assume a: "transport_reads_fail (mem ctx) (PT_REGS_PARM1 ctx)
            (wbio (bpf_probe_read_user (mem ctx) [] sizeof_ssl_st (PT_REGS_PARM1 ctx)))
          \<and> has_room (active_ssl_write_args_map st) (current_pid_tgid ctx)"
  have stored: "bpf_map_lookup_elem (active_ssl_write_args_map (probe_entry_SSL_write cfg ctx st))
                (current_pid_tgid ctx) = Some \<lparr>buf_fd = invalidFD, buf = PT_REGS_PARM2 ctx\<rparr>"
    using a probe_entry_SSL_write_stores [OF assms(1), of st]
    by (simp add: transport_reads_fail_num)
  have ev0: "tls_events (probe_entry_SSL_write cfg ctx st) = tls_events st"
    by (simp add: probe_entry_SSL_write_def Let_def)
  from probe_ret_SSL_write_record [of cfg rctx "probe_entry_SSL_write cfg ctx st"
      "\<lparr>buf_fd = invalidFD, buf = PT_REGS_PARM2 ctx\<rparr>"] assms stored
  obtain ev where ev: "tls_events (probe_ret_SSL_write cfg rctx (probe_entry_SSL_write cfg ctx st)) =
      tls_events (probe_entry_SSL_write cfg ctx st) @ [ev]" "fd ev = invalidFD"
    by auto
  show "bpf_map_lookup_elem (active_ssl_write_args_map (probe_entry_SSL_write cfg ctx st))
                (current_pid_tgid ctx) = Some \<lparr>buf_fd = invalidFD, buf = PT_REGS_PARM2 ctx\<rparr>"
    by (rule stored)
  show "tls_events (probe_ret_SSL_write cfg rctx (probe_entry_SSL_write cfg ctx st)) =
                tls_events st @ [last (tls_events (probe_ret_SSL_write cfg rctx (probe_entry_SSL_write cfg ctx st)))]"
    by (simp add: ev ev0)
  show "fd (last (tls_events (probe_ret_SSL_write cfg rctx (probe_entry_SSL_write cfg ctx st)))) = invalidFD"
    by (simp add: ev)
next
  assume a: "transport_reads_fail (mem ctx) (PT_REGS_PARM1 ctx)
            (rbio (bpf_probe_read_user (mem ctx) [] sizeof_ssl_st (PT_REGS_PARM1 ctx)))
          \<and> has_room (active_ssl_read_args_map st) (current_pid_tgid ctx)"
  have stored: "bpf_map_lookup_elem (active_ssl_read_args_map (probe_entry_SSL_read cfg ctx st))
                (current_pid_tgid ctx) = Some \<lparr>buf_fd = invalidFD, buf = PT_REGS_PARM2 ctx\<rparr>"
    using a probe_entry_SSL_read_stores [OF assms(1), of st]
    by (simp add: transport_reads_fail_num)
  have ev0: "tls_events (probe_entry_SSL_read cfg ctx st) = tls_events st"
    by (simp add: probe_entry_SSL_read_def Let_def)
  from probe_ret_SSL_read_record [of cfg rctx "probe_entry_SSL_read cfg ctx st"
      "\<lparr>buf_fd = invalidFD, buf = PT_REGS_PARM2 ctx\<rparr>"] assms stored
  obtain ev where ev: "tls_events (probe_ret_SSL_read cfg rctx (probe_entry_SSL_read cfg ctx st)) =
      tls_events (probe_entry_SSL_read cfg ctx st) @ [ev]" "fd ev = invalidFD"
    by auto
  show "bpf_map_lookup_elem (active_ssl_read_args_map (probe_entry_SSL_read cfg ctx st))
                (current_pid_tgid ctx) = Some \<lparr>buf_fd = invalidFD, buf = PT_REGS_PARM2 ctx\<rparr>"
    by (rule stored)
  show "tls_events (probe_ret_SSL_read cfg rctx (probe_entry_SSL_read cfg ctx st)) =
                tls_events st @ [last (tls_events (probe_ret_SSL_read cfg rctx (probe_entry_SSL_read cfg ctx st)))]"
    by (simp add: ev ev0)
  show "fd (last (tls_events (probe_ret_SSL_read cfg rctx (probe_entry_SSL_read cfg ctx st)))) = invalidFD"
    by (simp add: ev)
qed

theorem unknown_descriptor_when_reads_fail_witness:
  "\<not> filtered_out example_config (pid_of (current_pid_tgid (example_call 0)))
   \<and> current_pid_tgid (example_call 5) = current_pid_tgid (example_call 0)
   \<and> 0 \<le> sint (ucast (PT_REGS_RC (example_call 5)) :: s32)
   \<and> transport_reads_fail (mem (example_call 0)) (PT_REGS_PARM1 (example_call 0))
        (wbio (bpf_probe_read_user (mem (example_call 0)) [] sizeof_ssl_st (PT_REGS_PARM1 (example_call 0))))
   \<and> has_room (active_ssl_write_args_map openssl_start) (current_pid_tgid (example_call 0))
   \<and> transport_reads_fail (mem (example_call 0)) (PT_REGS_PARM1 (example_call 0))
        (rbio (bpf_probe_read_user (mem (example_call 0)) [] sizeof_ssl_st (PT_REGS_PARM1 (example_call 0))))
   \<and> has_room (active_ssl_read_args_map openssl_start) (current_pid_tgid (example_call 0))
   \<and> bpf_map_lookup_elem (active_ssl_write_args_map (probe_entry_SSL_write example_config (example_call 0) openssl_start))
        (current_pid_tgid (example_call 0)) = Some \<lparr>buf_fd = invalidFD, buf = PT_REGS_PARM2 (example_call 0)\<rparr>
   \<and> fd (last (tls_events (probe_ret_SSL_write example_config (example_call 5)
        (probe_entry_SSL_write example_config (example_call 0) openssl_start)))) = invalidFD
   \<and> bpf_map_lookup_elem (active_ssl_read_args_map (probe_entry_SSL_read example_config (example_call 0) openssl_start))
        (current_pid_tgid (example_call 0)) = Some \<lparr>buf_fd = invalidFD, buf = PT_REGS_PARM2 (example_call 0)\<rparr>
   \<and> fd (last (tls_events (probe_ret_SSL_read example_config (example_call 5)
        (probe_entry_SSL_read example_config (example_call 0) openssl_start)))) = invalidFD"
proof -
  have same: "current_pid_tgid (example_call 5) = current_pid_tgid (example_call 0)"
    by (simp add: example_call_def)
  have nn: "0 \<le> sint (ucast (PT_REGS_RC (example_call 5)) :: s32)"
    by (simp add: example_rc)
  show ?thesis
    using unknown_descriptor_when_reads_fail [OF example_pass same nn, of openssl_start]
      example_pass example_room example_reads_fail same nn
    by simp
qed

text \<open>
  C5. The descriptor that an OpenSSL entry probe stores is chosen by direction: with a
  readable connection object whose \<open>rbio\<close> and \<open>wbio\<close> fields hold the addresses \<open>r\<close> and
  \<open>w\<close> of readable transport objects with descriptors \<open>dr\<close> and \<open>dw\<close> in their \<open>num\<close>
  fields, the entry probe of \<open>SSL_read\<close> stores \<open>dr\<close> and the entry probe of \<open>SSL_write\<close>
  stores \<open>dw\<close>.
\<close>

theorem descriptor_follows_direction:
  assumes "\<not> filtered_out cfg (pid_of (current_pid_tgid ctx))"
    and "mem_read (mem ctx) (PT_REGS_PARM1 ctx) sizeof_ssl_st = Some s"
    and "take 8 (drop 16 s) = le_bytes 8 r" and "take 8 (drop 24 s) = le_bytes 8 w"
    and "mem_read (mem ctx) r sizeof_BIO = Some br" and "take 4 (drop 48 br) = le_bytes 4 dr"
    and "mem_read (mem ctx) w sizeof_BIO = Some bw" and "take 4 (drop 48 bw) = le_bytes 4 dw"
    and "has_room (active_ssl_read_args_map st) (current_pid_tgid ctx)"
    and "has_room (active_ssl_write_args_map st) (current_pid_tgid ctx)"
  shows "bpf_map_lookup_elem (active_ssl_read_args_map (probe_entry_SSL_read cfg ctx st))
             (current_pid_tgid ctx) = Some \<lparr>buf_fd = dr, buf = PT_REGS_PARM2 ctx\<rparr>
       \<and> bpf_map_lookup_elem (active_ssl_write_args_map (probe_entry_SSL_write cfg ctx st))
             (current_pid_tgid ctx) = Some \<lparr>buf_fd = dw, buf = PT_REGS_PARM2 ctx\<rparr>"
proof -
  have ssl: "bpf_probe_read_user (mem ctx) [] sizeof_ssl_st (PT_REGS_PARM1 ctx) = s"
    by (simp add: bpf_probe_read_user_struct assms(2))
  have r: "rbio s = r" by (simp add: rbio_def assms(3) le_word_le_bytes_u64)
  have w: "wbio s = w" by (simp add: wbio_def assms(4) le_word_le_bytes_u64)
  have nr: "num (bpf_probe_read_user (mem ctx) [] sizeof_BIO r) = dr"
    by (simp add: bpf_probe_read_user_struct assms(5) num_def assms(6) le_word_le_bytes_u32)
  have nw: "num (bpf_probe_read_user (mem ctx) [] sizeof_BIO w) = dw"
    by (simp add: bpf_probe_read_user_struct assms(7) num_def assms(8) le_word_le_bytes_u32)
  show ?thesis
    using probe_entry_SSL_read_stores [OF assms(1) assms(9)]
      probe_entry_SSL_write_stores [OF assms(1) assms(10)]
    by (simp add: ssl r w nr nw)
qed

theorem descriptor_follows_direction_witness:
  "\<not> filtered_out example_config (pid_of (current_pid_tgid (example_call 0\<lparr>mem := example_memory\<rparr>)))
   \<and> mem_read (mem (example_call 0\<lparr>mem := example_memory\<rparr>))
        (PT_REGS_PARM1 (example_call 0\<lparr>mem := example_memory\<rparr>)) sizeof_ssl_st = Some example_ssl_st
   \<and> take 8 (drop 16 example_ssl_st) = le_bytes 8 (0x3000 :: u64)
   \<and> take 8 (drop 24 example_ssl_st) = le_bytes 8 (0x4000 :: u64)
   \<and> mem_read (mem (example_call 0\<lparr>mem := example_memory\<rparr>)) 0x3000 sizeof_BIO = Some (example_BIO 7)
   \<and> take 4 (drop 48 (example_BIO 7)) = le_bytes 4 (7 :: u32)
   \<and> mem_read (mem (example_call 0\<lparr>mem := example_memory\<rparr>)) 0x4000 sizeof_BIO = Some (example_BIO 9)
   \<and> take 4 (drop 48 (example_BIO 9)) = le_bytes 4 (9 :: u32)
   \<and> has_room (active_ssl_read_args_map openssl_start) (current_pid_tgid (example_call 0\<lparr>mem := example_memory\<rparr>))
   \<and> has_room (active_ssl_write_args_map openssl_start) (current_pid_tgid (example_call 0\<lparr>mem := example_memory\<rparr>))
   \<and> bpf_map_lookup_elem (active_ssl_read_args_map
          (probe_entry_SSL_read example_config (example_call 0\<lparr>mem := example_memory\<rparr>) openssl_start))
        (current_pid_tgid (example_call 0\<lparr>mem := example_memory\<rparr>))
        = Some \<lparr>buf_fd = 7, buf = PT_REGS_PARM2 (example_call 0\<lparr>mem := example_memory\<rparr>)\<rparr>
   \<and> bpf_map_lookup_elem (active_ssl_write_args_map
          (probe_entry_SSL_write example_config (example_call 0\<lparr>mem := example_memory\<rparr>) openssl_start))
        (current_pid_tgid (example_call 0\<lparr>mem := example_memory\<rparr>))
        = Some \<lparr>buf_fd = 9, buf = PT_REGS_PARM2 (example_call 0\<lparr>mem := example_memory\<rparr>)\<rparr>"
proof -
  have m: "mem (example_call 0\<lparr>mem := example_memory\<rparr>) = example_memory"
    by simp
  have p1: "PT_REGS_PARM1 (example_call 0\<lparr>mem := example_memory\<rparr>) = 0x1000"
    by (simp add: example_call_def)
  have a: "mem_read (mem (example_call 0\<lparr>mem := example_memory\<rparr>))
        (PT_REGS_PARM1 (example_call 0\<lparr>mem := example_memory\<rparr>)) sizeof_ssl_st = Some example_ssl_st"
    by (simp only: m p1 example_memory_objects)
  have b: "mem_read (mem (example_call 0\<lparr>mem := example_memory\<rparr>)) 0x3000 sizeof_BIO = Some (example_BIO 7)"
    by (simp only: m example_memory_objects)
  have c: "mem_read (mem (example_call 0\<lparr>mem := example_memory\<rparr>)) 0x4000 sizeof_BIO = Some (example_BIO 9)"
    by (simp only: m example_memory_objects)
  note inst = descriptor_follows_direction [OF example_pass a example_memory_objects(2,3) b
      example_memory_objects(5) c example_memory_objects(7) example_room(2) example_room(1)]
  show ?thesis
    using inst a b c example_memory_objects(2,3,5,7) example_pass example_room
    by simp
qed

text \<open>
  C6. Where the process filter lets the call through and the destination pointer is not
  null, \<open>probe_connect\<close> appends exactly one Connection Record when the address family it
  reads equals \<open>AF_INET\<close> and none otherwise; the family it reads is the two bytes at the
  destination address when they are readable; the record's \<open>sa_data\<close> is the
  \<open>SA_DATA_LEN\<close> bytes that follow them when those are readable; and the return value of
  the call has no part in it.
\<close>

theorem connect_record_iff_family:
  assumes "\<not> filtered_out cfg (pid_of (current_pid_tgid ctx))" and "PT_REGS_PARM2 ctx \<noteq> 0"
  shows "connect_events (probe_connect cfg ctx st) =
           (if uint (address_family (mem ctx) (PT_REGS_PARM2 ctx)) = AF_INET cfg
            then connect_events st @ [last (connect_events (probe_connect cfg ctx st))]
            else connect_events st)
       \<and> (mem_read (mem ctx) (PT_REGS_PARM2 ctx) sizeof_sa_family_t = Some fam \<longrightarrow>
            address_family (mem ctx) (PT_REGS_PARM2 ctx) = le_word fam)
       \<and> (uint (address_family (mem ctx) (PT_REGS_PARM2 ctx)) = AF_INET cfg
            \<and> mem_read (mem ctx) (PT_REGS_PARM2 ctx + offsetof_sa_data) (SA_DATA_LEN cfg) = Some bs \<longrightarrow>
            sa_data (last (connect_events (probe_connect cfg ctx st))) = bs)
       \<and> probe_connect cfg (ctx\<lparr>PT_REGS_RC := rc\<rparr>) st = probe_connect cfg ctx st"
proof (intro conjI impI)
  show "connect_events (probe_connect cfg ctx st) =
           (if uint (address_family (mem ctx) (PT_REGS_PARM2 ctx)) = AF_INET cfg
            then connect_events st @ [last (connect_events (probe_connect cfg ctx st))]
            else connect_events st)"
    by (simp add: probe_connect_cases [OF assms])
next
  assume "mem_read (mem ctx) (PT_REGS_PARM2 ctx) sizeof_sa_family_t = Some fam"
  then show "address_family (mem ctx) (PT_REGS_PARM2 ctx) = le_word fam"
    by (simp add: address_family_def bpf_probe_read_whole)
next
  assume "uint (address_family (mem ctx) (PT_REGS_PARM2 ctx)) = AF_INET cfg
            \<and> mem_read (mem ctx) (PT_REGS_PARM2 ctx + offsetof_sa_data) (SA_DATA_LEN cfg) = Some bs"
  then show "sa_data (last (connect_events (probe_connect cfg ctx st))) = bs"
    by (simp add: probe_connect_cases [OF assms] bpf_probe_read_whole)
next
  show "probe_connect cfg (ctx\<lparr>PT_REGS_RC := rc\<rparr>) st = probe_connect cfg ctx st"
    by (simp add: probe_connect_def Let_def bpf_get_current_comm_def)
qed

theorem connect_record_iff_family_witness:
  "\<not> filtered_out example_config (pid_of (current_pid_tgid example_connect))
   \<and> PT_REGS_PARM2 example_connect \<noteq> 0
   \<and> mem_read (mem example_connect) (PT_REGS_PARM2 example_connect) sizeof_sa_family_t = Some [2, 0]
   \<and> uint (address_family (mem example_connect) (PT_REGS_PARM2 example_connect)) = AF_INET example_config
   \<and> mem_read (mem example_connect) (PT_REGS_PARM2 example_connect + offsetof_sa_data)
        (SA_DATA_LEN example_config) = Some example_sa_data
   \<and> connect_events (probe_connect example_config example_connect openssl_start) =
        connect_events openssl_start @ [last (connect_events (probe_connect example_config example_connect openssl_start))]
   \<and> sa_data (last (connect_events (probe_connect example_config example_connect openssl_start))) = example_sa_data
   \<and> PT_REGS_PARM2 (example_call 0) \<noteq> 0
   \<and> connect_events (probe_connect example_config (example_call 0) openssl_start) = connect_events openssl_start"
proof -
  note yes = connect_record_iff_family [OF example_pass example_connect_reads(1),
      where st = openssl_start and fam = "[2, 0]" and bs = example_sa_data and rc = 0]
  note no = connect_record_iff_family [OF example_pass example_connect_reads(6),
      where st = openssl_start and fam = "[]" and bs = "[]" and rc = 0]
  show ?thesis
    using yes no example_connect_reads example_pass
    by simp
qed

text \<open>
  C10. With a null destination pointer \<open>probe_connect\<close> returns at once: it leaves every
  map as it was, so no Connection Record is emitted, and this is so whatever the memory
  of the traced process holds, which it does not consult.
\<close>

theorem connect_null_address_ignored:
  assumes "PT_REGS_PARM2 ctx = 0"
  shows "probe_connect cfg (ctx\<lparr>mem := m\<rparr>) st = st"
  using assms by (simp add: probe_connect_def Let_def)

theorem connect_null_address_ignored_witness:
  "PT_REGS_PARM2 (example_connect\<lparr>PT_REGS_PARM2 := 0\<rparr>) = 0
   \<and> probe_connect example_config (example_connect\<lparr>PT_REGS_PARM2 := 0, mem := unmapped\<rparr>) openssl_start
       = openssl_start
   \<and> probe_connect example_config (example_connect\<lparr>PT_REGS_PARM2 := 0,
         mem := mem (example_connect\<lparr>PT_REGS_PARM2 := 0\<rparr>)\<rparr>) openssl_start
       = openssl_start"
proof -
  have z: "PT_REGS_PARM2 (example_connect\<lparr>PT_REGS_PARM2 := 0\<rparr>) = 0" by simp
  show ?thesis
    using connect_null_address_ignored [OF z, of example_config unmapped openssl_start]
      connect_null_address_ignored [OF z, of example_config
        "mem (example_connect\<lparr>PT_REGS_PARM2 := 0\<rparr>)" openssl_start]
    by simp
qed

text \<open>
  C7, as stated, fails for the NSPR program built with \<open>KERNEL_LESS_5_2\<close>: the filter
  selects process 7, the call is made by process 100, and still the entry probe stores
  the context and the return probe emits a record for process 100.
\<close>

theorem process_filter_counterexample:
  "target_pid legacy_config = 7
   \<and> pid_of (current_pid_tgid (example_call 0)) = 100
   \<and> bpf_map_lookup_elem
        (nspr_active_ssl_write_args_map (nspr_probe_entry_SSL_write legacy_config (example_call 0) nspr_start))
        (current_pid_tgid (example_call 0)) = Some (PT_REGS_PARM2 (example_call 0))
   \<and> map pid (nspr_events (nspr_probe_ret_SSL_write legacy_config (example_call 5)
        (nspr_probe_entry_SSL_write legacy_config (example_call 0) nspr_start))) = [100]"
  by (simp add: legacy_config_def example_config_def example_call_def nspr_start_def pid_of_def
      nspr_probe_entry_SSL_write_def nspr_probe_ret_SSL_write_def nspr_process_SSL_data_def
      nspr_create_ssl_data_event_def bpf_percpu_array_lookup_def
      bpf_map_update_elem_def bpf_map_lookup_elem_def bpf_map_delete_elem_def
      args_map_max_entries_def Let_def mem_read_unmapped word_sless_alt)

text \<open>
  C7, amended. At every interception point of the OpenSSL program, and at every
  interception point of the NSPR program built without \<open>KERNEL_LESS_5_2\<close>, a call by a
  process other than a non-zero \<open>target_pid\<close> leaves every map as it was: no context is
  stored and no record is emitted. With \<open>target_pid\<close> zero or equal to the caller's
  process id the probe goes ahead: an entry probe stores the caller's context (where the
  store takes it), a return probe removes it, and \<open>probe_connect\<close> emits a record for an
  \<open>AF_INET\<close> destination. Built with \<open>KERNEL_LESS_5_2\<close>, the NSPR probes go ahead for every
  process, whatever \<open>target_pid\<close> is.
\<close>

theorem process_filter:
  shows "(target_pid cfg \<noteq> 0 \<and> target_pid cfg \<noteq> ucast (pid_of (current_pid_tgid ctx)) \<longrightarrow>
            openssl_fire cfg p ctx st = st
            \<and> (\<not> KERNEL_LESS_5_2 cfg \<longrightarrow> nspr_fire cfg p ctx nst = nst))
       \<and> (target_pid cfg = 0 \<or> target_pid cfg = ucast (pid_of (current_pid_tgid ctx)) \<longrightarrow>
            (has_room (active_ssl_write_args_map st) (current_pid_tgid ctx) \<longrightarrow>
               map_option buf (bpf_map_lookup_elem (active_ssl_write_args_map
                 (probe_entry_SSL_write cfg ctx st)) (current_pid_tgid ctx)) = Some (PT_REGS_PARM2 ctx))
            \<and> (has_room (active_ssl_read_args_map st) (current_pid_tgid ctx) \<longrightarrow>
               map_option buf (bpf_map_lookup_elem (active_ssl_read_args_map
                 (probe_entry_SSL_read cfg ctx st)) (current_pid_tgid ctx)) = Some (PT_REGS_PARM2 ctx))
            \<and> bpf_map_lookup_elem (active_ssl_write_args_map (probe_ret_SSL_write cfg ctx st))
                 (current_pid_tgid ctx) = None
            \<and> bpf_map_lookup_elem (active_ssl_read_args_map (probe_ret_SSL_read cfg ctx st))
                 (current_pid_tgid ctx) = None
            \<and> (PT_REGS_PARM2 ctx \<noteq> 0
                 \<and> uint (address_family (mem ctx) (PT_REGS_PARM2 ctx)) = AF_INET cfg \<longrightarrow>
               length (connect_events (probe_connect cfg ctx st)) = Suc (length (connect_events st))))
       \<and> (target_pid cfg = 0 \<or> target_pid cfg = ucast (pid_of (current_pid_tgid ctx))
            \<or> KERNEL_LESS_5_2 cfg \<longrightarrow>
            (has_room (nspr_active_ssl_write_args_map nst) (current_pid_tgid ctx) \<longrightarrow>
               bpf_map_lookup_elem (nspr_active_ssl_write_args_map
                 (nspr_probe_entry_SSL_write cfg ctx nst)) (current_pid_tgid ctx) = Some (PT_REGS_PARM2 ctx))
            \<and> (has_room (nspr_active_ssl_read_args_map nst) (current_pid_tgid ctx) \<longrightarrow>
               bpf_map_lookup_elem (nspr_active_ssl_read_args_map
                 (nspr_probe_entry_SSL_read cfg ctx nst)) (current_pid_tgid ctx) = Some (PT_REGS_PARM2 ctx))
            \<and> bpf_map_lookup_elem (nspr_active_ssl_write_args_map (nspr_probe_ret_SSL_write cfg ctx nst))
                 (current_pid_tgid ctx) = None
            \<and> bpf_map_lookup_elem (nspr_active_ssl_read_args_map (nspr_probe_ret_SSL_read cfg ctx nst))
                 (current_pid_tgid ctx) = None)"
proof (intro conjI impI)
  assume a: "target_pid cfg \<noteq> 0 \<and> target_pid cfg \<noteq> ucast (pid_of (current_pid_tgid ctx))"
  then have f: "filtered_out cfg (pid_of (current_pid_tgid ctx))"
    by (simp add: filtered_out_def)
  then show "openssl_fire cfg p ctx st = st" by (rule openssl_fire_filtered)
  assume "\<not> KERNEL_LESS_5_2 cfg"
  with f have "nspr_filtered_out cfg (pid_of (current_pid_tgid ctx))"
    by (simp add: nspr_filtered_out_def)
  then show "nspr_fire cfg p ctx nst = nst" by (rule nspr_fire_filtered)
next
  assume "target_pid cfg = 0 \<or> target_pid cfg = ucast (pid_of (current_pid_tgid ctx))"
  then have pass: "\<not> filtered_out cfg (pid_of (current_pid_tgid ctx))"
    by (auto simp: filtered_out_def)
  {
    assume "has_room (active_ssl_write_args_map st) (current_pid_tgid ctx)"
    then show "map_option buf (bpf_map_lookup_elem (active_ssl_write_args_map
                 (probe_entry_SSL_write cfg ctx st)) (current_pid_tgid ctx)) = Some (PT_REGS_PARM2 ctx)"
      by (simp add: probe_entry_SSL_write_stores [OF pass])
  next
    assume "has_room (active_ssl_read_args_map st) (current_pid_tgid ctx)"
    then show "map_option buf (bpf_map_lookup_elem (active_ssl_read_args_map
                 (probe_entry_SSL_read cfg ctx st)) (current_pid_tgid ctx)) = Some (PT_REGS_PARM2 ctx)"
      by (simp add: probe_entry_SSL_read_stores [OF pass])
  next
    show "bpf_map_lookup_elem (active_ssl_write_args_map (probe_ret_SSL_write cfg ctx st))
                 (current_pid_tgid ctx) = None"
      using pass by (rule probe_ret_SSL_write_removes)
  next
    show "bpf_map_lookup_elem (active_ssl_read_args_map (probe_ret_SSL_read cfg ctx st))
                 (current_pid_tgid ctx) = None"
      using pass by (rule probe_ret_SSL_read_removes)
  next
    assume "PT_REGS_PARM2 ctx \<noteq> 0
                 \<and> uint (address_family (mem ctx) (PT_REGS_PARM2 ctx)) = AF_INET cfg"
    then show "length (connect_events (probe_connect cfg ctx st)) = Suc (length (connect_events st))"
      by (simp add: probe_connect_cases [OF pass])
  }
next
  assume "target_pid cfg = 0 \<or> target_pid cfg = ucast (pid_of (current_pid_tgid ctx))
            \<or> KERNEL_LESS_5_2 cfg"
  then have pass: "\<not> nspr_filtered_out cfg (pid_of (current_pid_tgid ctx))"
    by (auto simp: nspr_filtered_out_def filtered_out_def)
  {
    assume "has_room (nspr_active_ssl_write_args_map nst) (current_pid_tgid ctx)"
    then show "bpf_map_lookup_elem (nspr_active_ssl_write_args_map
                 (nspr_probe_entry_SSL_write cfg ctx nst)) (current_pid_tgid ctx) = Some (PT_REGS_PARM2 ctx)"
      by (simp add: nspr_probe_entry_SSL_write_stores [OF pass])
  next
    assume "has_room (nspr_active_ssl_read_args_map nst) (current_pid_tgid ctx)"
    then show "bpf_map_lookup_elem (nspr_active_ssl_read_args_map
                 (nspr_probe_entry_SSL_read cfg ctx nst)) (current_pid_tgid ctx) = Some (PT_REGS_PARM2 ctx)"
      by (simp add: nspr_probe_entry_SSL_read_stores [OF pass])
  next
    show "bpf_map_lookup_elem (nspr_active_ssl_write_args_map (nspr_probe_ret_SSL_write cfg ctx nst))
                 (current_pid_tgid ctx) = None"
      using pass by (rule nspr_probe_ret_SSL_write_removes)
  next
    show "bpf_map_lookup_elem (nspr_active_ssl_read_args_map (nspr_probe_ret_SSL_read cfg ctx nst))
                 (current_pid_tgid ctx) = None"
      using pass by (rule nspr_probe_ret_SSL_read_removes)
  }
qed

theorem process_filter_witness:
  "(target_pid strict_config \<noteq> 0 \<and>
      target_pid strict_config \<noteq> ucast (pid_of (current_pid_tgid (example_call 0))))
   \<and> \<not> KERNEL_LESS_5_2 strict_config
   \<and> openssl_fire strict_config SSL_write_entry (example_call 0) openssl_start = openssl_start
   \<and> nspr_fire strict_config SSL_write_entry (example_call 0) nspr_start = nspr_start
   \<and> target_pid example_config = 0
   \<and> has_room (active_ssl_write_args_map openssl_start) (current_pid_tgid example_connect)
   \<and> has_room (active_ssl_read_args_map openssl_start) (current_pid_tgid example_connect)
   \<and> has_room (nspr_active_ssl_write_args_map nspr_start) (current_pid_tgid example_connect)
   \<and> has_room (nspr_active_ssl_read_args_map nspr_start) (current_pid_tgid example_connect)
   \<and> PT_REGS_PARM2 example_connect \<noteq> 0
   \<and> uint (address_family (mem example_connect) (PT_REGS_PARM2 example_connect)) = AF_INET example_config
   \<and> map_option buf (bpf_map_lookup_elem (active_ssl_write_args_map
        (probe_entry_SSL_write example_config example_connect openssl_start))
        (current_pid_tgid example_connect)) = Some (PT_REGS_PARM2 example_connect)
   \<and> bpf_map_lookup_elem (active_ssl_write_args_map
        (probe_ret_SSL_write example_config example_connect openssl_start))
        (current_pid_tgid example_connect) = None
   \<and> length (connect_events (probe_connect example_config example_connect openssl_start)) =
        Suc (length (connect_events openssl_start))
   \<and> bpf_map_lookup_elem (nspr_active_ssl_write_args_map
        (nspr_probe_entry_SSL_write example_config example_connect nspr_start))
        (current_pid_tgid example_connect) = Some (PT_REGS_PARM2 example_connect)"
proof -
  note rej = process_filter [of strict_config "example_call 0" SSL_write_entry openssl_start nspr_start]
  note acc = process_filter [of example_config example_connect SSL_write_entry openssl_start nspr_start]
  show ?thesis
    using rej acc strict_config_rejects example_config_all example_room example_nspr_room
      example_connect_reads(1,4)
    by simp
qed

text \<open>
  C8. The put of an entry probe is made with \<open>BPF_ANY\<close>, with no condition on the key:
  an entry probe that passes the filter overwrites the context of a key that is already
  in the store, whatever the store holds, and inserts a new key within the store's fixed
  capacity of 1024 entries (beyond it a new key is dropped). So of two entries by one
  thread the second wins. A return probe that passes the filter removes the entry of the
  returning thread, whether or not it emitted a record, and emits nothing when there was
  no entry.
\<close>

theorem store_put_and_take:
  shows "(\<not> filtered_out cfg (pid_of (current_pid_tgid ctx)) \<longrightarrow>
            bpf_map_lookup_elem (active_ssl_write_args_map (probe_entry_SSL_write cfg ctx st))
                (current_pid_tgid ctx) =
              (if has_room (active_ssl_write_args_map st) (current_pid_tgid ctx)
               then Some \<lparr>buf_fd = num (bpf_probe_read_user (mem ctx) [] sizeof_BIO
                             (wbio (bpf_probe_read_user (mem ctx) [] sizeof_ssl_st (PT_REGS_PARM1 ctx)))),
                          buf = PT_REGS_PARM2 ctx\<rparr>
               else None)
          \<and> bpf_map_lookup_elem (active_ssl_read_args_map (probe_entry_SSL_read cfg ctx st))
                (current_pid_tgid ctx) =
              (if has_room (active_ssl_read_args_map st) (current_pid_tgid ctx)
               then Some \<lparr>buf_fd = num (bpf_probe_read_user (mem ctx) [] sizeof_BIO
                             (rbio (bpf_probe_read_user (mem ctx) [] sizeof_ssl_st (PT_REGS_PARM1 ctx)))),
                          buf = PT_REGS_PARM2 ctx\<rparr>
               else None)
          \<and> (current_pid_tgid ctx2 = current_pid_tgid ctx
               \<and> has_room (active_ssl_write_args_map st) (current_pid_tgid ctx) \<longrightarrow>
              map_option buf (bpf_map_lookup_elem (active_ssl_write_args_map
                (probe_entry_SSL_write cfg ctx2 (probe_entry_SSL_write cfg ctx st))) (current_pid_tgid ctx)) =
              Some (PT_REGS_PARM2 ctx2))
          \<and> bpf_map_lookup_elem (active_ssl_write_args_map (probe_ret_SSL_write cfg ctx st))
                (current_pid_tgid ctx) = None
          \<and> bpf_map_lookup_elem (active_ssl_read_args_map (probe_ret_SSL_read cfg ctx st))
                (current_pid_tgid ctx) = None
          \<and> (bpf_map_lookup_elem (active_ssl_write_args_map st) (current_pid_tgid ctx) = None \<longrightarrow>
              tls_events (probe_ret_SSL_write cfg ctx st) = tls_events st)
          \<and> (bpf_map_lookup_elem (active_ssl_read_args_map st) (current_pid_tgid ctx) = None \<longrightarrow>
              tls_events (probe_ret_SSL_read cfg ctx st) = tls_events st))
       \<and> (\<not> nspr_filtered_out cfg (pid_of (current_pid_tgid ctx)) \<longrightarrow>
            bpf_map_lookup_elem (nspr_active_ssl_write_args_map (nspr_probe_entry_SSL_write cfg ctx nst))
                (current_pid_tgid ctx) =
              (if has_room (nspr_active_ssl_write_args_map nst) (current_pid_tgid ctx)
               then Some (PT_REGS_PARM2 ctx) else None)
          \<and> bpf_map_lookup_elem (nspr_active_ssl_read_args_map (nspr_probe_entry_SSL_read cfg ctx nst))
                (current_pid_tgid ctx) =
              (if has_room (nspr_active_ssl_read_args_map nst) (current_pid_tgid ctx)
               then Some (PT_REGS_PARM2 ctx) else None)
          \<and> (current_pid_tgid ctx2 = current_pid_tgid ctx
               \<and> has_room (nspr_active_ssl_write_args_map nst) (current_pid_tgid ctx) \<longrightarrow>
              bpf_map_lookup_elem (nspr_active_ssl_write_args_map
                (nspr_probe_entry_SSL_write cfg ctx2 (nspr_probe_entry_SSL_write cfg ctx nst)))
                (current_pid_tgid ctx) = Some (PT_REGS_PARM2 ctx2))
          \<and> bpf_map_lookup_elem (nspr_active_ssl_write_args_map (nspr_probe_ret_SSL_write cfg ctx nst))
                (current_pid_tgid ctx) = None
          \<and> bpf_map_lookup_elem (nspr_active_ssl_read_args_map (nspr_probe_ret_SSL_read cfg ctx nst))
                (current_pid_tgid ctx) = None
          \<and> (bpf_map_lookup_elem (nspr_active_ssl_write_args_map nst) (current_pid_tgid ctx) = None \<longrightarrow>
              nspr_events (nspr_probe_ret_SSL_write cfg ctx nst) = nspr_events nst)
          \<and> (bpf_map_lookup_elem (nspr_active_ssl_read_args_map nst) (current_pid_tgid ctx) = None \<longrightarrow>
              nspr_events (nspr_probe_ret_SSL_read cfg ctx nst) = nspr_events nst))"
proof (intro conjI impI)
  assume pass: "\<not> filtered_out cfg (pid_of (current_pid_tgid ctx))"
  show "bpf_map_lookup_elem (active_ssl_write_args_map (probe_entry_SSL_write cfg ctx st))
                (current_pid_tgid ctx) =
              (if has_room (active_ssl_write_args_map st) (current_pid_tgid ctx)
               then Some \<lparr>buf_fd = num (bpf_probe_read_user (mem ctx) [] sizeof_BIO
                             (wbio (bpf_probe_read_user (mem ctx) [] sizeof_ssl_st (PT_REGS_PARM1 ctx)))),
                          buf = PT_REGS_PARM2 ctx\<rparr>
               else None)"
    using pass by (rule probe_entry_SSL_write_put)
  show "bpf_map_lookup_elem (active_ssl_read_args_map (probe_entry_SSL_read cfg ctx st))
                (current_pid_tgid ctx) =
              (if has_room (active_ssl_read_args_map st) (current_pid_tgid ctx)
               then Some \<lparr>buf_fd = num (bpf_probe_read_user (mem ctx) [] sizeof_BIO
                             (rbio (bpf_probe_read_user (mem ctx) [] sizeof_ssl_st (PT_REGS_PARM1 ctx)))),
                          buf = PT_REGS_PARM2 ctx\<rparr>
               else None)"
    using pass by (rule probe_entry_SSL_read_put)
  show "bpf_map_lookup_elem (active_ssl_write_args_map (probe_ret_SSL_write cfg ctx st))
                (current_pid_tgid ctx) = None"
    using pass by (rule probe_ret_SSL_write_removes)
  show "bpf_map_lookup_elem (active_ssl_read_args_map (probe_ret_SSL_read cfg ctx st))
                (current_pid_tgid ctx) = None"
    using pass by (rule probe_ret_SSL_read_removes)
  {
    assume "current_pid_tgid ctx2 = current_pid_tgid ctx
               \<and> has_room (active_ssl_write_args_map st) (current_pid_tgid ctx)"
    then show "map_option buf (bpf_map_lookup_elem (active_ssl_write_args_map
                (probe_entry_SSL_write cfg ctx2 (probe_entry_SSL_write cfg ctx st))) (current_pid_tgid ctx)) =
              Some (PT_REGS_PARM2 ctx2)"
      using probe_entry_SSL_write_twice [OF pass, of ctx2 st] by simp
  next
    assume "bpf_map_lookup_elem (active_ssl_write_args_map st) (current_pid_tgid ctx) = None"
    then show "tls_events (probe_ret_SSL_write cfg ctx st) = tls_events st"
      by (simp add: probe_ret_SSL_write_events)
  next
    assume "bpf_map_lookup_elem (active_ssl_read_args_map st) (current_pid_tgid ctx) = None"
    then show "tls_events (probe_ret_SSL_read cfg ctx st) = tls_events st"
      by (simp add: probe_ret_SSL_read_events)
  }
next
  assume pass: "\<not> nspr_filtered_out cfg (pid_of (current_pid_tgid ctx))"
  show "bpf_map_lookup_elem (nspr_active_ssl_write_args_map (nspr_probe_entry_SSL_write cfg ctx nst))
                (current_pid_tgid ctx) =
              (if has_room (nspr_active_ssl_write_args_map nst) (current_pid_tgid ctx)
               then Some (PT_REGS_PARM2 ctx) else None)"
    using pass by (rule nspr_probe_entry_SSL_write_put)
  show "bpf_map_lookup_elem (nspr_active_ssl_read_args_map (nspr_probe_entry_SSL_read cfg ctx nst))
                (current_pid_tgid ctx) =
              (if has_room (nspr_active_ssl_read_args_map nst) (current_pid_tgid ctx)
               then Some (PT_REGS_PARM2 ctx) else None)"
    using pass by (rule nspr_probe_entry_SSL_read_put)
  show "bpf_map_lookup_elem (nspr_active_ssl_write_args_map (nspr_probe_ret_SSL_write cfg ctx nst))
                (current_pid_tgid ctx) = None"
    using pass by (rule nspr_probe_ret_SSL_write_removes)
  show "bpf_map_lookup_elem (nspr_active_ssl_read_args_map (nspr_probe_ret_SSL_read cfg ctx nst))
                (current_pid_tgid ctx) = None"
    using pass by (rule nspr_probe_ret_SSL_read_removes)
  {
    assume "current_pid_tgid ctx2 = current_pid_tgid ctx
               \<and> has_room (nspr_active_ssl_write_args_map nst) (current_pid_tgid ctx)"
    then show "bpf_map_lookup_elem (nspr_active_ssl_write_args_map
                (nspr_probe_entry_SSL_write cfg ctx2 (nspr_probe_entry_SSL_write cfg ctx nst)))
                (current_pid_tgid ctx) = Some (PT_REGS_PARM2 ctx2)"
      using nspr_probe_entry_SSL_write_twice [OF pass, of ctx2 nst] by simp
  next
    assume "bpf_map_lookup_elem (nspr_active_ssl_write_args_map nst) (current_pid_tgid ctx) = None"
    then show "nspr_events (nspr_probe_ret_SSL_write cfg ctx nst) = nspr_events nst"
      by (simp add: nspr_probe_ret_SSL_write_events)
  next
    assume "bpf_map_lookup_elem (nspr_active_ssl_read_args_map nst) (current_pid_tgid ctx) = None"
    then show "nspr_events (nspr_probe_ret_SSL_read cfg ctx nst) = nspr_events nst"
      by (simp add: nspr_probe_ret_SSL_read_events)
  }
qed

theorem store_put_and_take_witness:
  "\<not> filtered_out example_config (pid_of (current_pid_tgid (example_call 0)))
   \<and> \<not> nspr_filtered_out example_config (pid_of (current_pid_tgid (example_call 0)))
   \<and> current_pid_tgid (example_call 0\<lparr>PT_REGS_PARM2 := 0x5000\<rparr>) = current_pid_tgid (example_call 0)
   \<and> has_room (active_ssl_write_args_map openssl_start) (current_pid_tgid (example_call 0))
   \<and> has_room (nspr_active_ssl_write_args_map nspr_start) (current_pid_tgid (example_call 0))
   \<and> bpf_map_lookup_elem (active_ssl_write_args_map openssl_start) (current_pid_tgid (example_call 0)) = None
   \<and> bpf_map_lookup_elem (active_ssl_read_args_map openssl_start) (current_pid_tgid (example_call 0)) = None
   \<and> bpf_map_lookup_elem (nspr_active_ssl_write_args_map nspr_start) (current_pid_tgid (example_call 0)) = None
   \<and> bpf_map_lookup_elem (nspr_active_ssl_read_args_map nspr_start) (current_pid_tgid (example_call 0)) = None
   \<and> map_option buf (bpf_map_lookup_elem (active_ssl_write_args_map
        (probe_entry_SSL_write example_config (example_call 0) openssl_start))
        (current_pid_tgid (example_call 0))) = Some (PT_REGS_PARM2 (example_call 0))
   \<and> map_option buf (bpf_map_lookup_elem (active_ssl_write_args_map
        (probe_entry_SSL_write example_config (example_call 0\<lparr>PT_REGS_PARM2 := 0x5000\<rparr>)
           (probe_entry_SSL_write example_config (example_call 0) openssl_start)))
        (current_pid_tgid (example_call 0))) = Some 0x5000
   \<and> bpf_map_lookup_elem (active_ssl_write_args_map
        (probe_ret_SSL_write example_config (example_call 0) openssl_start))
        (current_pid_tgid (example_call 0)) = None
   \<and> tls_events (probe_ret_SSL_write example_config (example_call 0) openssl_start) = tls_events openssl_start
   \<and> tls_events (probe_ret_SSL_read example_config (example_call 0) openssl_start) = tls_events openssl_start
   \<and> bpf_map_lookup_elem (nspr_active_ssl_write_args_map
        (nspr_probe_entry_SSL_write example_config (example_call 0\<lparr>PT_REGS_PARM2 := 0x5000\<rparr>)
           (nspr_probe_entry_SSL_write example_config (example_call 0) nspr_start)))
        (current_pid_tgid (example_call 0)) = Some 0x5000
   \<and> nspr_events (nspr_probe_ret_SSL_write example_config (example_call 0) nspr_start) = nspr_events nspr_start
   \<and> nspr_events (nspr_probe_ret_SSL_read example_config (example_call 0) nspr_start) = nspr_events nspr_start
   \<and> \<not> has_room (active_ssl_write_args_map (openssl_run example_config (crowd 1024) openssl_start))
         (current_pid_tgid (thread_call 5000))
   \<and> bpf_map_lookup_elem (active_ssl_write_args_map
        (probe_entry_SSL_write example_config (thread_call 5000)
           (openssl_run example_config (crowd 1024) openssl_start)))
        (current_pid_tgid (thread_call 5000)) = None"
proof -
  note first = store_put_and_take [of example_config "example_call 0" openssl_start
      "example_call 0\<lparr>PT_REGS_PARM2 := 0x5000\<rparr>" nspr_start]
  note full = store_put_and_take [of example_config "thread_call 5000"
      "openssl_run example_config (crowd 1024) openssl_start" "thread_call 5000" nspr_start]
  have same: "current_pid_tgid (example_call 0\<lparr>PT_REGS_PARM2 := 0x5000\<rparr>) = current_pid_tgid (example_call 0)"
    by simp
  show ?thesis
    using first full same
    by (simp add: example_pass example_nspr_pass example_room example_nspr_room example_absent crowd_full)
qed

text \<open>
  C9. Let other threads' probes fire, in any number and order, between the moment a
  thread's context is in the store and the moment its return probe runs. They leave the
  entry under that thread's key as it was, in both stores of both programs. The return
  probe then emits a record only from the context under its own key: the record carries
  the process and thread ids of the returning thread, the descriptor stored under its
  key, and the bytes at the buffer address stored under its key. The key is the pair of
  the two ids, so distinct threads have distinct keys.
\<close>

theorem contexts_are_thread_scoped:
  assumes "\<forall>e \<in> set evs. current_pid_tgid (snd e) \<noteq> current_pid_tgid ctx"
  shows "bpf_map_lookup_elem (active_ssl_write_args_map (openssl_run cfg evs st)) (current_pid_tgid ctx) =
           bpf_map_lookup_elem (active_ssl_write_args_map st) (current_pid_tgid ctx)
       \<and> bpf_map_lookup_elem (active_ssl_read_args_map (openssl_run cfg evs st)) (current_pid_tgid ctx) =
           bpf_map_lookup_elem (active_ssl_read_args_map st) (current_pid_tgid ctx)
       \<and> bpf_map_lookup_elem (nspr_active_ssl_write_args_map (nspr_run cfg evs nst)) (current_pid_tgid ctx) =
           bpf_map_lookup_elem (nspr_active_ssl_write_args_map nst) (current_pid_tgid ctx)
       \<and> bpf_map_lookup_elem (nspr_active_ssl_read_args_map (nspr_run cfg evs nst)) (current_pid_tgid ctx) =
           bpf_map_lookup_elem (nspr_active_ssl_read_args_map nst) (current_pid_tgid ctx)
       \<and> (case bpf_map_lookup_elem (active_ssl_write_args_map st) (current_pid_tgid ctx) of
              None \<Rightarrow> tls_events (probe_ret_SSL_write cfg ctx (openssl_run cfg evs st)) = tls_events (openssl_run cfg evs st)
            | Some c \<Rightarrow>
                if 0 \<le> sint (ucast (PT_REGS_RC ctx) :: s32) \<and> \<not> filtered_out cfg (pid_of (current_pid_tgid ctx))
                then tls_events (probe_ret_SSL_write cfg ctx (openssl_run cfg evs st)) =
                    tls_events (openssl_run cfg evs st) @ [last (tls_events (probe_ret_SSL_write cfg ctx (openssl_run cfg evs st)))]
                \<and> attributed_to (last (tls_events (probe_ret_SSL_write cfg ctx (openssl_run cfg evs st)))) (current_pid_tgid ctx)
                \<and> fd (last (tls_events (probe_ret_SSL_write cfg ctx (openssl_run cfg evs st)))) = buf_fd c
                \<and> data (last (tls_events (probe_ret_SSL_write cfg ctx (openssl_run cfg evs st)))) =
                    bpf_probe_read (mem ctx) (data (data_buffer_heap (openssl_run cfg evs st) (cpu ctx)))
                      (unat (data_len (last (tls_events (probe_ret_SSL_write cfg ctx (openssl_run cfg evs st)))))) (buf c)
                else tls_events (probe_ret_SSL_write cfg ctx (openssl_run cfg evs st)) = tls_events (openssl_run cfg evs st))
       \<and> (case bpf_map_lookup_elem (active_ssl_read_args_map st) (current_pid_tgid ctx) of
              None \<Rightarrow> tls_events (probe_ret_SSL_read cfg ctx (openssl_run cfg evs st)) = tls_events (openssl_run cfg evs st)
            | Some c \<Rightarrow>
                if 0 \<le> sint (ucast (PT_REGS_RC ctx) :: s32) \<and> \<not> filtered_out cfg (pid_of (current_pid_tgid ctx))
                then tls_events (probe_ret_SSL_read cfg ctx (openssl_run cfg evs st)) =
                    tls_events (openssl_run cfg evs st) @ [last (tls_events (probe_ret_SSL_read cfg ctx (openssl_run cfg evs st)))]
                \<and> attributed_to (last (tls_events (probe_ret_SSL_read cfg ctx (openssl_run cfg evs st)))) (current_pid_tgid ctx)
                \<and> fd (last (tls_events (probe_ret_SSL_read cfg ctx (openssl_run cfg evs st)))) = buf_fd c
                \<and> data (last (tls_events (probe_ret_SSL_read cfg ctx (openssl_run cfg evs st)))) =
                    bpf_probe_read (mem ctx) (data (data_buffer_heap (openssl_run cfg evs st) (cpu ctx)))
                      (unat (data_len (last (tls_events (probe_ret_SSL_read cfg ctx (openssl_run cfg evs st)))))) (buf c)
                else tls_events (probe_ret_SSL_read cfg ctx (openssl_run cfg evs st)) = tls_events (openssl_run cfg evs st))
       \<and> (case bpf_map_lookup_elem (nspr_active_ssl_write_args_map nst) (current_pid_tgid ctx) of
              None \<Rightarrow> nspr_events (nspr_probe_ret_SSL_write cfg ctx (nspr_run cfg evs nst)) = nspr_events (nspr_run cfg evs nst)
            | Some c \<Rightarrow>
                if 0 \<le> sint (ucast (PT_REGS_RC ctx) :: s32) \<and> \<not> nspr_filtered_out cfg (pid_of (current_pid_tgid ctx))
                then nspr_events (nspr_probe_ret_SSL_write cfg ctx (nspr_run cfg evs nst)) =
                    nspr_events (nspr_run cfg evs nst) @ [last (nspr_events (nspr_probe_ret_SSL_write cfg ctx (nspr_run cfg evs nst)))]
                \<and> attributed_to (last (nspr_events (nspr_probe_ret_SSL_write cfg ctx (nspr_run cfg evs nst)))) (current_pid_tgid ctx)
                \<and> data (last (nspr_events (nspr_probe_ret_SSL_write cfg ctx (nspr_run cfg evs nst)))) =
                    bpf_probe_read (mem ctx) (data (nspr_data_buffer_heap (nspr_run cfg evs nst) (cpu ctx)))
                      (unat (data_len (last (nspr_events (nspr_probe_ret_SSL_write cfg ctx (nspr_run cfg evs nst)))))) c
                else nspr_events (nspr_probe_ret_SSL_write cfg ctx (nspr_run cfg evs nst)) = nspr_events (nspr_run cfg evs nst))
       \<and> (case bpf_map_lookup_elem (nspr_active_ssl_read_args_map nst) (current_pid_tgid ctx) of
              None \<Rightarrow> nspr_events (nspr_probe_ret_SSL_read cfg ctx (nspr_run cfg evs nst)) = nspr_events (nspr_run cfg evs nst)
            | Some c \<Rightarrow>
                if 0 \<le> sint (ucast (PT_REGS_RC ctx) :: s32) \<and> \<not> nspr_filtered_out cfg (pid_of (current_pid_tgid ctx))
                then nspr_events (nspr_probe_ret_SSL_read cfg ctx (nspr_run cfg evs nst)) =
                    nspr_events (nspr_run cfg evs nst) @ [last (nspr_events (nspr_probe_ret_SSL_read cfg ctx (nspr_run cfg evs nst)))]
                \<and> attributed_to (last (nspr_events (nspr_probe_ret_SSL_read cfg ctx (nspr_run cfg evs nst)))) (current_pid_tgid ctx)
                \<and> data (last (nspr_events (nspr_probe_ret_SSL_read cfg ctx (nspr_run cfg evs nst)))) =
                    bpf_probe_read (mem ctx) (data (nspr_data_buffer_heap (nspr_run cfg evs nst) (cpu ctx)))
                      (unat (data_len (last (nspr_events (nspr_probe_ret_SSL_read cfg ctx (nspr_run cfg evs nst)))))) c
                else nspr_events (nspr_probe_ret_SSL_read cfg ctx (nspr_run cfg evs nst)) = nspr_events (nspr_run cfg evs nst))
       \<and> (pid_of k = pid_of k' \<and> (ucast k :: u32) = ucast k' \<longrightarrow> k = k')"
proof -
  note o = openssl_run_other [OF assms, of cfg st]
  note n = nspr_run_other [OF assms, of cfg nst]
  show ?thesis
    using probe_ret_SSL_write_attribution [where st = "openssl_run cfg evs st" and ctx = ctx and cfg = cfg]
      probe_ret_SSL_read_attribution [where st = "openssl_run cfg evs st" and ctx = ctx and cfg = cfg]
      nspr_probe_ret_SSL_write_attribution [where st = "nspr_run cfg evs nst" and ctx = ctx and cfg = cfg]
      nspr_probe_ret_SSL_read_attribution [where st = "nspr_run cfg evs nst" and ctx = ctx and cfg = cfg]
      key_determined [of k k']
    by (simp only: o n) blast
qed

theorem contexts_are_thread_scoped_witness:
  "current_pid_tgid (thread_call 7) \<noteq> current_pid_tgid (example_call 5)
   \<and> bpf_map_lookup_elem (active_ssl_write_args_map
        (openssl_run example_config example_others
           (openssl_run example_config example_session openssl_start)))
        (current_pid_tgid (example_call 5)) = Some \<lparr>buf_fd = 0, buf = 0x2000\<rparr>
   \<and> bpf_map_lookup_elem (nspr_active_ssl_read_args_map
        (nspr_run example_config example_others
           (nspr_run example_config example_session nspr_start)))
        (current_pid_tgid (example_call 5)) = Some 0x2000
   \<and> tls_events (probe_ret_SSL_write example_config (example_call 5)
        (openssl_run example_config example_others
           (openssl_run example_config example_session openssl_start))) =
      tls_events (openssl_run example_config example_others
           (openssl_run example_config example_session openssl_start))
      @ [last (tls_events (probe_ret_SSL_write example_config (example_call 5)
        (openssl_run example_config example_others
           (openssl_run example_config example_session openssl_start))))]
   \<and> attributed_to (last (tls_events (probe_ret_SSL_write example_config (example_call 5)
        (openssl_run example_config example_others
           (openssl_run example_config example_session openssl_start)))))
        (current_pid_tgid (example_call 5))
   \<and> fd (last (tls_events (probe_ret_SSL_write example_config (example_call 5)
        (openssl_run example_config example_others
           (openssl_run example_config example_session openssl_start))))) = 0
   \<and> attributed_to (last (nspr_events (nspr_probe_ret_SSL_read example_config (example_call 5)
        (nspr_run example_config example_others
           (nspr_run example_config example_session nspr_start)))))
        (current_pid_tgid (example_call 5))"
proof -
  note inst = contexts_are_thread_scoped [OF example_others_keys [of 5],
      where cfg = example_config
        and st = "openssl_run example_config example_session openssl_start"
        and nst = "nspr_run example_config example_session nspr_start"
        and k = 0 and k' = 0]
  have other: "current_pid_tgid (thread_call 7) \<noteq> current_pid_tgid (example_call 5)"
    by (simp add: thread_call_def example_call_def)
  show ?thesis
    using inst other
    by (simp add: example_session_contexts example_rc example_pass example_nspr_pass)
qed

end
